theory Spec2Isabelle
  imports Complex_Main "HOL-Library.Word"
begin

unbundle bit_operations_syntax

section \<open>Python text\<close>

text \<open>
  A Python \<open>str\<close> is a sequence of Unicode code points, modelled as a list of
  natural numbers. \<open>py\<close> reads an Isabelle string literal as such a sequence (the
  characters of a literal are code points below 256).
\<close>

type_synonym pystr = "nat list"

definition py :: "string \<Rightarrow> pystr" where
  "py s = map of_char s"

text \<open>
  The character classes of \<open>str.islower\<close>, \<open>str.isspace\<close>, \<open>str.lower\<close> and of the
  regular expressions (\<open>\w\<close>, \<open>\d\<close> with the value of a digit, and the match of two
  characters when case is ignored) are tables of the Unicode database, which is
  not part of the repository: every function that consults one takes the tables as its
  first argument. \<open>ascii_db\<close> is the database restricted to ASCII, where it agrees
  with Python; it is the instance at which the model is evaluated on ASCII text.
\<close>

record unicode =
  u_islower :: "nat \<Rightarrow> bool"
  u_isspace :: "nat \<Rightarrow> bool"
  u_isword :: "nat \<Rightarrow> bool"
  u_decimal :: "nat \<Rightarrow> nat option"
  u_lower :: "pystr \<Rightarrow> pystr"
  u_caseless :: "nat \<Rightarrow> nat \<Rightarrow> bool"

definition ascii_islower :: "nat \<Rightarrow> bool" where
  "ascii_islower c = (97 \<le> c \<and> c \<le> 122)"

definition ascii_isspace :: "nat \<Rightarrow> bool" where
  "ascii_isspace c = ((9 \<le> c \<and> c \<le> 13) \<or> (28 \<le> c \<and> c \<le> 32))"

definition ascii_isword :: "nat \<Rightarrow> bool" where
  "ascii_isword c =
     ((48 \<le> c \<and> c \<le> 57) \<or> (65 \<le> c \<and> c \<le> 90) \<or> c = 95 \<or> (97 \<le> c \<and> c \<le> 122))"

definition ascii_decimal :: "nat \<Rightarrow> nat option" where
  "ascii_decimal c = (if 48 \<le> c \<and> c \<le> 57 then Some (c - 48) else None)"

definition ascii_lower :: "pystr \<Rightarrow> pystr" where
  "ascii_lower s = map (\<lambda>c. if 65 \<le> c \<and> c \<le> 90 then c + 32 else c) s"

definition ascii_caseless :: "nat \<Rightarrow> nat \<Rightarrow> bool" where
  "ascii_caseless a b = (ascii_lower [a] = ascii_lower [b])"

definition ascii_db :: unicode where
  "ascii_db = \<lparr>u_islower = ascii_islower, u_isspace = ascii_isspace,
     u_isword = ascii_isword, u_decimal = ascii_decimal, u_lower = ascii_lower,
     u_caseless = ascii_caseless\<rparr>"

text \<open>\<open>s.rstrip()\<close>, \<open>s.lstrip()\<close> and \<open>s.strip()\<close>: whitespace removed at the ends.\<close>

definition lstrip :: "unicode \<Rightarrow> pystr \<Rightarrow> pystr" where
  "lstrip U s = dropWhile (u_isspace U) s"

definition rstrip :: "unicode \<Rightarrow> pystr \<Rightarrow> pystr" where
  "rstrip U s = rev (dropWhile (u_isspace U) (rev s))"

definition strip :: "unicode \<Rightarrow> pystr \<Rightarrow> pystr" where
  "strip U s = rstrip U (lstrip U s)"

text \<open>\<open>s.split("\n")\<close> and \<open>"\n".join(lines)\<close>; the code point of the newline is 10.\<close>

fun split_newline :: "pystr \<Rightarrow> pystr list" where
  "split_newline [] = [[]]"
| "split_newline (c # cs) =
     (if c = 10 then [] # split_newline cs
      else (case split_newline cs of [] \<Rightarrow> [[c]] | l # ls \<Rightarrow> (c # l) # ls))"

fun join :: "pystr \<Rightarrow> pystr list \<Rightarrow> pystr" where
  "join sep [] = []"
| "join sep [x] = x"
| "join sep (x # y # ys) = x @ sep @ join sep (y # ys)"

section \<open>transcription.py\<close>

text \<open>
  The speech-to-text call is an external capability: \<open>stt segment language\<close> is the
  text it returns, \<open>None\<close> when the call raises. \<open>exists\<close> tells whether the segment
  file is on disk. The type \<open>'seg\<close> is that of the segment handles (paths).
\<close>

type_synonym 'seg speech_to_text = "'seg \<Rightarrow> pystr option \<Rightarrow> pystr option"

definition transcribe_single_segment ::
  "('seg \<Rightarrow> bool) \<Rightarrow> 'seg speech_to_text \<Rightarrow> 'seg \<Rightarrow> pystr option \<Rightarrow> pystr" where
  "transcribe_single_segment exists stt segment whisper_language =
     (if \<not> exists segment then []
      else (case stt segment whisper_language of None \<Rightarrow> [] | Some text \<Rightarrow> text))"

text \<open>
  The loop of \<open>transcribe_segments\<close> over \<open>enumerate(results)\<close>: \<open>i\<close> is the index,
  \<open>transcript\<close> the text built so far.
\<close>

fun combine_results :: "unicode \<Rightarrow> nat \<Rightarrow> pystr \<Rightarrow> pystr list \<Rightarrow> pystr" where
  "combine_results U i transcript [] = transcript"
| "combine_results U i transcript (segment_text # rest) =
     (if segment_text = [] then combine_results U (Suc i) transcript rest
      else if i > 0 then
        (if u_islower U (hd segment_text) \<and> transcript \<noteq> [] \<and>
            last transcript \<notin> set (py ''.!?'')
         then combine_results U (Suc i) (rstrip U transcript @ py '' '' @ segment_text) rest
         else combine_results U (Suc i) (transcript @ segment_text @ [10]) rest)
      else combine_results U (Suc i) (transcript @ segment_text @ [10]) rest)"

text \<open>The clean-up of the combined text: the lines that are blank are dropped.\<close>

definition clean_newlines :: "unicode \<Rightarrow> pystr \<Rightarrow> pystr" where
  "clean_newlines U transcript =
     join [10] (filter (\<lambda>line. strip U line \<noteq> []) (split_newline transcript))"

text \<open>Lines 96 to 114: the merged transcript of the per-segment results.\<close>

definition merge_results :: "unicode \<Rightarrow> pystr list \<Rightarrow> pystr" where
  "merge_results U results = clean_newlines U (combine_results U 0 [] results)"

text \<open>
  \<open>transcribe_segments\<close>. The results are collected in the order of the segments
  (\<open>executor.map\<close>). \<open>detect\<close> is the language detector, \<open>None\<close> when it raises; the
  right-to-left mark is the code point 0x202B.
\<close>

definition falsy :: "pystr option \<Rightarrow> bool" where
  "falsy language = (language = None \<or> language = Some [])"

definition transcribe_segments ::
  "unicode \<Rightarrow> ('seg \<Rightarrow> bool) \<Rightarrow> 'seg speech_to_text \<Rightarrow> (pystr \<Rightarrow> pystr option) \<Rightarrow>
   'seg list \<Rightarrow> pystr option \<Rightarrow> pystr" where
  "transcribe_segments U exists stt detect segments language =
     (if segments = [] then []
      else
        let results = map (\<lambda>seg. transcribe_single_segment exists stt seg language) segments;
            transcript = merge_results U results
        in if language = Some (py ''ar'') then 0x202B # transcript
           else if falsy language then
             (if detect (take 500 transcript) = Some (py ''ar'') then 0x202B # transcript
              else transcript)
           else transcript)"


section \<open>Numbers\<close>

text \<open>
  Durations and clock readings are Python floats that come from outside; they are
  modelled as real numbers, and the rounding of the arithmetic on them is left out.
  \<open>int(x)\<close> truncates towards zero; \<open>x % y\<close> has the sign of \<open>y\<close>.
\<close>

definition py_int :: "real \<Rightarrow> int" where
  "py_int x = (if 0 \<le> x then \<lfloor>x\<rfloor> else \<lceil>x\<rceil>)"

definition py_fmod :: "real \<Rightarrow> real \<Rightarrow> real" where
  "py_fmod x y = x - y * of_int \<lfloor>x / y\<rfloor>"

text \<open>
  The arithmetic on integers that goes through floats is modelled in binary64.
  \<open>float_round\<close> rounds a real number to the nearest double, ties to even: the doubles
  in the binade \<open>2 ^ e \<le> \<bar>x\<bar> < 2 ^ (e + 1)\<close> are the multiples of \<open>2 ^ (e - 52)\<close>, and
  below \<open>2 ^ - 1022\<close> (the subnormal numbers) the multiples of \<open>2 ^ - 1074\<close>.
  \<open>float_exponent\<close> searches the binade in at most \<open>fuel\<close> steps; 1100 steps reach
  every double. A result beyond the largest double, for which Python raises
  \<open>OverflowError\<close>, is left out: it takes an integer of more than 300 digits.
\<close>

definition round_half_even :: "real \<Rightarrow> int" where
  "round_half_even x =
     (let f = \<lfloor>x\<rfloor>; r = x - of_int f
      in if r < 1 / 2 then f else if 1 / 2 < r then f + 1 else if even f then f else f + 1)"

fun float_exponent :: "nat \<Rightarrow> real \<Rightarrow> int" where
  "float_exponent 0 a = 0"
| "float_exponent (Suc fuel) a =
     (if 2 \<le> a then float_exponent fuel (a / 2) + 1
      else if a < 1 then float_exponent fuel (a * 2) - 1
      else 0)"

definition pow2 :: "int \<Rightarrow> real" where
  "pow2 e = (if 0 \<le> e then 2 ^ nat e else 1 / 2 ^ nat (- e))"

definition float_round :: "real \<Rightarrow> real" where
  "float_round x =
     (if x = 0 then 0
      else let e = max (float_exponent 1100 \<bar>x\<bar>) (- 1022);
               spacing = pow2 (e - 52)
           in of_int (round_half_even (x / spacing)) * spacing)"

text \<open>
  \<open>a / b\<close> for two integers (the division is correctly rounded), and
  \<open>int((completed / total) * 100)\<close>, the percentage of \<open>update_progress\<close> and \<open>ask\<close>.
\<close>

definition py_truediv :: "int \<Rightarrow> int \<Rightarrow> real" where
  "py_truediv a b = float_round (of_int a / of_int b)"

definition percent_complete :: "int \<Rightarrow> int \<Rightarrow> int" where
  "percent_complete chunks_completed chunks_total =
     py_int (float_round (py_truediv chunks_completed chunks_total * 100))"

text \<open>\<open>str(n)\<close> of an integer, and the format \<open>{n:02d}\<close>.\<close>

fun str_nat :: "nat \<Rightarrow> pystr" where
  "str_nat n = (if n < 10 then [48 + n] else str_nat (n div 10) @ [48 + n mod 10])"

declare str_nat.simps [simp del]

definition str_int :: "int \<Rightarrow> pystr" where
  "str_int i = (if i < 0 then 45 # str_nat (nat (- i)) else str_nat (nat i))"

definition str_int02 :: "int \<Rightarrow> pystr" where
  "str_int02 i =
     (if i < 0 then 45 # str_nat (nat (- i))
      else if i < 10 then 48 # str_nat (nat i)
      else str_nat (nat i))"

datatype error = ZeroDivisionError | UnicodeEncodeError | DownloadFailed | FileNotFoundError

section \<open>audio\_processing.py\<close>

record segment =
  seg_index :: nat
  seg_start :: int
  seg_length :: int

text \<open>Line 51: a file of more than 50 MB is taken for a long video.\<close>

definition long_video_detected :: "bool \<Rightarrow> nat \<Rightarrow> bool" where
  "long_video_detected is_long_video file_size =
     (is_long_video \<or> file_size > 50 * 1024 * 1024)"

text \<open>Lines 69 to 74: the segment length, raised for a long video.\<close>

definition segment_seconds :: "bool \<Rightarrow> real \<Rightarrow> int \<Rightarrow> int" where
  "segment_seconds is_long_video duration max_seconds =
     (if is_long_video then
        (if duration > 7200 then max max_seconds 180
         else if duration > 3600 then max max_seconds 120
         else max_seconds)
      else max_seconds)"

text \<open>Line 77.\<close>

definition segments_count :: "real \<Rightarrow> int \<Rightarrow> int" where
  "segments_count duration max_seconds = max 1 (py_int (duration / of_int max_seconds))"

text \<open>
  \<open>process_segment\<close>: the ffmpeg command cuts \<open>max_seconds\<close> seconds from the offset
  \<open>index * max_seconds\<close> (its options \<open>-ss\<close> and \<open>-t\<close>).
\<close>

definition process_segment :: "int \<Rightarrow> nat \<Rightarrow> segment" where
  "process_segment max_seconds index =
     \<lparr>seg_index = index, seg_start = int index * max_seconds, seg_length = max_seconds\<rparr>"

definition planned_segments :: "real \<Rightarrow> int \<Rightarrow> segment list" where
  "planned_segments duration max_seconds =
     map (process_segment max_seconds) [0..<nat (segments_count duration max_seconds)]"

text \<open>The batches of line 125: \<open>xs[i:i+n]\<close> for \<open>i\<close> in \<open>range(0, len(xs), n)\<close>.\<close>

function batches :: "nat \<Rightarrow> 'a list \<Rightarrow> 'a list list" where
  "batches n xs = (if n = 0 \<or> xs = [] then [] else take n xs # batches n (drop n xs))"
  by pat_completeness auto
termination
  by (relation "measure (\<lambda>(n, xs). length xs)") auto

declare batches.simps [simp del]

text \<open>
  \<open>split_audio\<close>. Its inputs from outside: whether ffmpeg is installed, whether the
  input file exists, its size in bytes, the duration ffprobe reports (0 when it fails),
  and for each segment index whether ffmpeg wrote the segment file. The result lists the
  segments whose file exists, in index order.
\<close>

definition split_audio ::
  "bool \<Rightarrow> bool \<Rightarrow> nat \<Rightarrow> real \<Rightarrow> (nat \<Rightarrow> bool) \<Rightarrow> int \<Rightarrow> bool \<Rightarrow> error + segment list" where
  "split_audio check_ffmpeg file_exists file_size duration extracted max_seconds is_long_video =
     (if \<not> check_ffmpeg then Inr []
      else if \<not> file_exists then Inr []
      else
        let is_long = long_video_detected is_long_video file_size in
        if duration \<le> 0 then Inr []
        else
          let m = segment_seconds is_long duration max_seconds in
          if m = 0 then Inl ZeroDivisionError
          else
            let plan = planned_segments duration m;
                valid = (\<lambda>segs. filter (\<lambda>s. extracted (seg_index s)) segs)
            in if is_long \<and> segments_count duration m > 50
               then Inr (concat (map valid (batches 20 plan)))
               else Inr (valid plan))"

section \<open>app.py: the progress tracker\<close>

record progress_status =
  ps_message :: pystr
  ps_percentage :: int
  ps_video_id :: "pystr option"
  ps_processing_type :: pystr
  ps_chunks_total :: int
  ps_chunks_completed :: int
  ps_estimated_time_remaining :: "pystr option"
  ps_started_at :: "real option"

definition initial_progress :: progress_status where
  "initial_progress = \<lparr>ps_message = py ''Ready'', ps_percentage = 0, ps_video_id = None,
     ps_processing_type = py ''standard'', ps_chunks_total = 0, ps_chunks_completed = 0,
     ps_estimated_time_remaining = None, ps_started_at = None\<rparr>"

text \<open>Lines 113 to 123: the estimate of the remaining time, at clock reading \<open>now\<close>.\<close>

definition estimate_remaining :: "real \<Rightarrow> progress_status \<Rightarrow> progress_status" where
  "estimate_remaining now p =
     (case ps_started_at p of
        None \<Rightarrow> p
      | Some started \<Rightarrow>
          if started \<noteq> 0 \<and> ps_chunks_completed p > 0 \<and> ps_chunks_total p > 0 then
            let elapsed = now - started;
                time_per_chunk = elapsed / of_int (ps_chunks_completed p);
                remaining_chunks = ps_chunks_total p - ps_chunks_completed p;
                est_time_remaining = time_per_chunk * of_int remaining_chunks;
                minutes = \<lfloor>est_time_remaining / 60\<rfloor>;
                seconds = py_int (py_fmod est_time_remaining 60)
            in p\<lparr>ps_estimated_time_remaining :=
                   Some (str_int minutes @ py ''m '' @ str_int seconds @ py ''s'')\<rparr>
          else p)"

text \<open>
  \<open>update_progress\<close>: an argument left out is \<open>None\<close>. The test of line 106 reads
  the \<^emph>\<open>argument\<close> \<open>chunks_total\<close>, not the tracked value.
\<close>

definition update_progress ::
  "real \<Rightarrow> progress_status \<Rightarrow> pystr \<Rightarrow> int option \<Rightarrow> pystr option \<Rightarrow> pystr option \<Rightarrow>
   int option \<Rightarrow> int option \<Rightarrow> real option \<Rightarrow> progress_status" where
  "update_progress now p0 message percentage video_id processing_type
       chunks_total chunks_completed started_at =
     (let p1 = p0\<lparr>ps_message := message\<rparr>;
          p2 = (case percentage of None \<Rightarrow> p1 | Some v \<Rightarrow> p1\<lparr>ps_percentage := v\<rparr>);
          p3 = (case video_id of None \<Rightarrow> p2 | Some v \<Rightarrow> p2\<lparr>ps_video_id := Some v\<rparr>);
          p4 = (case processing_type of None \<Rightarrow> p3 | Some v \<Rightarrow> p3\<lparr>ps_processing_type := v\<rparr>);
          p5 = (case chunks_total of None \<Rightarrow> p4 | Some v \<Rightarrow> p4\<lparr>ps_chunks_total := v\<rparr>);
          p6 = (case chunks_completed of
                  None \<Rightarrow> p5
                | Some c \<Rightarrow>
                    let q = p5\<lparr>ps_chunks_completed := c\<rparr> in
                    (case chunks_total of
                       None \<Rightarrow> q
                     | Some t \<Rightarrow>
                         if t \<noteq> 0 \<and> c \<le> t
                         then q\<lparr>ps_percentage := percent_complete c t\<rparr>
                         else q));
          p7 = (case started_at of None \<Rightarrow> p6 | Some v \<Rightarrow> p6\<lparr>ps_started_at := Some v\<rparr>)
      in estimate_remaining now p7)"


section \<open>app.py: the persisted state\<close>

text \<open>
  The record of a video in \<open>data/videos\<close> (a JSON object). A key that is absent
  reads as the default of the \<open>get\<close> that reads it. The channel, the keywords, the
  transcript path and the processing date are left out: no function modelled here reads
  them.
\<close>

record video_info =
  vi_title :: pystr
  vi_duration :: real
  vi_language :: "pystr option"
  vi_is_long_video :: bool
  vi_chunks_total :: int
  vi_chunks_completed :: int
  vi_processing_status :: "pystr option"
  vi_error_message :: "pystr option"

text \<open>
  A prompt for the chat completion: the parts the templates of \<open>generate_prompt\<close> and
  \<open>generate_agent_prompt\<close> interpolate. The fixed wording of the templates is left out.
\<close>

record prompt =
  p_agent :: bool
  p_language :: pystr
  p_question :: pystr
  p_context :: "pystr list"
  p_history :: "(pystr \<times> pystr) list"

text \<open>
  The state the server keeps: the progress tracker, the data directories (each a map
  from file name to content, or the set of the files present), the collections of the
  vector store by name, the conversation histories of \<open>app.py\<close> by session id, the
  memory cache of \<open>qa_system.py\<close> by video id, the number of clock readings made, and
  the calls of the chat completion so far (oldest first; the calls of one summary are one
  entry).
\<close>

datatype chat_call = Question prompt | Summarize pystr pystr

record world =
  progress_status :: progress_status
  TRANSCRIPT_DIR :: "pystr \<rightharpoonup> pystr"
  CACHE_DIR :: "pystr \<rightharpoonup> (pystr \<rightharpoonup> pystr)"
  AUDIO_DIR :: "pystr set"
  TEMP_DIR :: "pystr set"
  VIDEO_INFO_DIR :: "pystr \<rightharpoonup> video_info"
  CHROMA_DIR :: "pystr \<rightharpoonup> pystr list"
  conversation_histories :: "pystr \<rightharpoonup> (pystr \<times> pystr) list"
  memory_cache :: "pystr \<rightharpoonup> (pystr \<rightharpoonup> pystr)"
  ticks :: nat
  chat_log :: "chat_call list"

definition startswith :: "pystr \<Rightarrow> pystr \<Rightarrow> bool" where
  "startswith s p = (take (length p) s = p)"

definition transcript_file :: "pystr \<Rightarrow> pystr" where
  "transcript_file video_id = video_id @ py ''.txt''"

definition cache_file :: "pystr \<Rightarrow> pystr" where
  "cache_file video_id = video_id @ py ''.json''"

definition segments_cache_file :: "pystr \<Rightarrow> pystr" where
  "segments_cache_file video_id = video_id @ py ''_segments.json''"

definition video_info_file :: "pystr \<Rightarrow> pystr" where
  "video_info_file video_id = video_id @ py ''.json''"

definition audio_file :: "pystr \<Rightarrow> pystr" where
  "audio_file video_id = video_id @ py ''.mp3''"

definition collection_name :: "pystr \<Rightarrow> pystr" where
  "collection_name video_id = py ''youtube_transcript_'' @ video_id"

text \<open>
  \<open>clean_video_data\<close>. The removals are taken to succeed (the function then returns
  \<open>True\<close>): the transcript, the file \<open>{video_id}.json\<close> of the cache directory, the
  audio file, the temporary files and the conversation histories whose name starts with
  \<open>{video_id}_\<close>, and the collection of the video.
\<close>

definition clean_video_data :: "world \<Rightarrow> pystr \<Rightarrow> world" where
  "clean_video_data w video_id =
     w\<lparr>TRANSCRIPT_DIR := (TRANSCRIPT_DIR w)(transcript_file video_id := None),
       CACHE_DIR := (CACHE_DIR w)(cache_file video_id := None),
       AUDIO_DIR := AUDIO_DIR w - {audio_file video_id},
       TEMP_DIR := {f \<in> TEMP_DIR w. \<not> startswith f (video_id @ py ''_'')},
       CHROMA_DIR := (CHROMA_DIR w)(collection_name video_id := None),
       conversation_histories :=
         (\<lambda>session_id. if startswith session_id (video_id @ py ''_'') then None
                       else conversation_histories w session_id)\<rparr>"

section \<open>app.py: processing a video\<close>

text \<open>
  What the server gets from outside while it processes a video: the clock (its k-th
  reading), the metadata of the video, whether the download succeeds, whether ffmpeg is
  installed, size and duration of an audio file, whether the cut of a super-chunk
  succeeds, whether a segment of an audio file is written, whether a segment file
  exists, the speech-to-text call, the language detector, the chunks that end in the
  vector store for a transcript and a chunk size (\<open>split_text\<close> and the embedding), the
  documents a query of a collection returns for a question, the windows of a transcript
  that stand in for them (lines 529 to 579 of \<open>qa_system.py\<close>, not unfolded here), the
  chat completion (\<open>None\<close> when the call raises) and the summary that
  \<open>summarize_transcript\<close> obtains from it. A segment is named by the audio file it is
  cut from and its index.
\<close>

record env =
  e_clock :: "nat \<Rightarrow> real"
  e_title :: pystr
  e_duration :: real
  e_download :: bool
  e_check_ffmpeg :: bool
  e_audio_size :: "pystr \<Rightarrow> nat"
  e_audio_duration :: "pystr \<Rightarrow> real"
  e_extract_chunk :: "nat \<Rightarrow> bool"
  e_extracted :: "pystr \<Rightarrow> nat \<Rightarrow> bool"
  e_exists :: "pystr \<times> nat \<Rightarrow> bool"
  e_stt :: "(pystr \<times> nat) speech_to_text"
  e_detect :: "pystr \<Rightarrow> pystr option"
  e_index :: "pystr \<Rightarrow> nat \<Rightarrow> pystr list"
  e_retrieve :: "pystr list \<Rightarrow> pystr \<Rightarrow> pystr list"
  e_windows :: "pystr \<Rightarrow> pystr list"
  e_chat :: "prompt \<Rightarrow> pystr option"
  e_summarize :: "pystr \<Rightarrow> pystr \<Rightarrow> pystr"

text \<open>A call of \<open>update_progress\<close> on the tracker of the state, at the next clock reading.\<close>

definition progress_update ::
  "env \<Rightarrow> world \<Rightarrow> pystr \<Rightarrow> int option \<Rightarrow> pystr option \<Rightarrow> pystr option \<Rightarrow>
   int option \<Rightarrow> int option \<Rightarrow> real option \<Rightarrow> world" where
  "progress_update e w message percentage video_id processing_type
       chunks_total chunks_completed started_at =
     w\<lparr>progress_status :=
         update_progress (e_clock e (ticks w)) (progress_status w) message percentage video_id
           processing_type chunks_total chunks_completed started_at,
       ticks := Suc (ticks w)\<rparr>"

text \<open>Line 395 of \<open>process\<close>: the choice of the chunked mode.\<close>

definition is_long_video :: "real \<Rightarrow> bool \<Rightarrow> bool" where
  "is_long_video video_duration force_chunked = (video_duration > 1800 \<or> force_chunked)"

text \<open>Lines 865 to 870 of \<open>process_long_video\<close>.\<close>

definition chunk_duration :: "real \<Rightarrow> int" where
  "chunk_duration duration = (if duration > 7200 then 1800 else 1200)"

definition chunk_count :: "real \<Rightarrow> int \<Rightarrow> int" where
  "chunk_count duration chunk_dur =
     max 1 (py_int (duration / of_int chunk_dur) +
            (if py_fmod duration (of_int chunk_dur) > 0 then 1 else 0))"

text \<open>
  \<open>embed_and_store\<close>: nothing is stored for an empty list of chunks; otherwise the
  collection is fetched or created and the chunks are added.
\<close>

definition embed_and_store :: "world \<Rightarrow> pystr list \<Rightarrow> pystr \<Rightarrow> world" where
  "embed_and_store w chunks name =
     (if chunks = [] then w
      else w\<lparr>CHROMA_DIR := (CHROMA_DIR w)(name \<mapsto>
               (case CHROMA_DIR w name of None \<Rightarrow> chunks | Some old \<Rightarrow> old @ chunks))\<rparr>)"

text \<open>
  One round of the loop of \<open>process_long_video\<close> (lines 930 to 1003). An exception in
  the \<open>try\<close> block (the cut of the chunk fails, \<open>split_audio\<close> raises, the record of
  the video is gone) ends the round; what was done before it stays done.
\<close>

definition process_chunk ::
  "unicode \<Rightarrow> env \<Rightarrow> pystr \<Rightarrow> pystr option \<Rightarrow> int \<Rightarrow> int \<Rightarrow> real \<Rightarrow>
   world \<times> pystr list \<Rightarrow> nat \<Rightarrow> world \<times> pystr list" where
  "process_chunk U e video_id language chunk_dur total_chunks actual_duration acc chunk_idx =
     (case acc of (w, all_transcripts) \<Rightarrow>
      let chunk_start = int chunk_idx * chunk_dur;
          chunk_end = min (of_int ((int chunk_idx + 1) * chunk_dur)) actual_duration;
          w1 = progress_update e w
                 (py ''Processing chunk '' @ str_int (int chunk_idx + 1) @ py ''/'' @
                  str_int total_chunks @ py ''...'')
                 None (Some video_id) None None (Some (int chunk_idx)) None;
          chunk_file = video_id @ py ''_chunk_'' @ str_nat chunk_idx @ py ''.mp3''
      in if \<not> e_extract_chunk e chunk_idx then (w1, all_transcripts)
         else
           let w2 = w1\<lparr>TEMP_DIR := insert chunk_file (TEMP_DIR w1)\<rparr> in
           (case split_audio (e_check_ffmpeg e) True (e_audio_size e chunk_file)
                   (e_audio_duration e chunk_file) (e_extracted e chunk_file) 60 True of
              Inl err \<Rightarrow> (w2, all_transcripts)
            | Inr segs \<Rightarrow>
                let segments = map (\<lambda>s. (chunk_file, seg_index s)) segs;
                    chunk_transcript =
                      transcribe_segments U (e_exists e) (e_stt e) (e_detect e) segments language;
                    w3 = w2\<lparr>TEMP_DIR := insert
                           (video_id @ py ''_transcript_'' @ str_nat chunk_idx @ py ''.txt'')
                           (TEMP_DIR w2)\<rparr>;
                    timestamp = py ''['' @ str_int02 (py_int (py_truediv chunk_start 60)) @
                                py '':'' @ str_int02 (chunk_start mod 60) @ py '']'';
                    all_transcripts' = all_transcripts @ [timestamp @ py '' '' @ chunk_transcript];
                    w4 = progress_update e w3
                           (py ''Completed chunk '' @ str_int (int chunk_idx + 1) @ py ''/'' @
                            str_int total_chunks)
                           None (Some video_id) None None (Some (int chunk_idx + 1)) None
                in (case VIDEO_INFO_DIR w4 (video_info_file video_id) of
                      None \<Rightarrow> (w4, all_transcripts')
                    | Some current_info \<Rightarrow>
                        (w4\<lparr>VIDEO_INFO_DIR := (VIDEO_INFO_DIR w4)(video_info_file video_id \<mapsto>
                                current_info\<lparr>vi_chunks_completed := int chunk_idx + 1\<rparr>),
                            TEMP_DIR := TEMP_DIR w4 - {chunk_file}\<rparr>,
                         all_transcripts'))))"

text \<open>
  \<open>process_long_video\<close> up to its loop (lines 860 to 925): \<open>Inl (message, w)\<close> is an
  exception raised in the state \<open>w\<close>; \<open>Inr (w, chunk_dur, total_chunks, actual_duration)\<close>
  is the state and the plan the loop starts with.
\<close>

definition long_video_start ::
  "env \<Rightarrow> world \<Rightarrow> pystr \<Rightarrow> (pystr \<times> world) + (world \<times> int \<times> int \<times> real)" where
  "long_video_start e w0 video_id =
     (let w = w0\<lparr>ticks := Suc (ticks w0)\<rparr>;
          duration = e_duration e;
          chunk_dur = chunk_duration duration;
          total_chunks = chunk_count duration chunk_dur;
          w1 = progress_update e w (py ''Starting chunked processing for long video...'')
                 (Some 5) (Some video_id) (Some (py ''chunked'')) (Some total_chunks) (Some 0) None
      in case VIDEO_INFO_DIR w1 (video_info_file video_id) of
           None \<Rightarrow> Inl (py ''No such file or directory'', w1)
         | Some current_info \<Rightarrow>
             let w2 = w1\<lparr>VIDEO_INFO_DIR := (VIDEO_INFO_DIR w1)(video_info_file video_id \<mapsto>
                          current_info\<lparr>vi_chunks_total := total_chunks, vi_chunks_completed := 0,
                            vi_processing_status := Some (py ''downloading'')\<rparr>)\<rparr>;
                 w3 = progress_update e w2 (py ''Downloading audio...'')
                        (Some 10) (Some video_id) None (Some total_chunks) None None
             in if \<not> e_download e
                then Inl (py ''Failed to download audio for long video'', w3)
                else
                  let w4 = w3\<lparr>AUDIO_DIR := insert (audio_file video_id) (AUDIO_DIR w3)\<rparr>;
                      actual_duration = e_audio_duration e (audio_file video_id)
                  in if actual_duration > 0
                     then
                       let total_chunks' = chunk_count actual_duration chunk_dur;
                           w5 = progress_update e w4
                                  (py ''Audio downloaded, processing in chunks...'')
                                  (Some 15) (Some video_id) None (Some total_chunks') None None
                       in (case VIDEO_INFO_DIR w5 (video_info_file video_id) of
                             None \<Rightarrow> Inl (py ''No such file or directory'', w5)
                           | Some info \<Rightarrow>
                               Inr (w5\<lparr>VIDEO_INFO_DIR :=
                                      (VIDEO_INFO_DIR w5)(video_info_file video_id \<mapsto>
                                        info\<lparr>vi_chunks_total := total_chunks',
                                          vi_duration := actual_duration,
                                          vi_processing_status := Some (py ''transcribing'')\<rparr>)\<rparr>,
                                    chunk_dur, total_chunks', actual_duration))
                     else Inr (w4, chunk_dur, total_chunks, actual_duration))"

text \<open>\<open>process_long_video\<close> after its loop (lines 1005 to 1062).\<close>

definition long_video_finish ::
  "env \<Rightarrow> world \<Rightarrow> pystr list \<Rightarrow> pystr \<Rightarrow> pystr option \<Rightarrow> int \<Rightarrow> real \<Rightarrow> world" where
  "long_video_finish e w all_transcripts video_id language total_chunks actual_duration =
     (let full_transcript = join (py [CHR 10, CHR 10]) all_transcripts;
          w8 = w\<lparr>TRANSCRIPT_DIR :=
                 (TRANSCRIPT_DIR w)(transcript_file video_id \<mapsto> full_transcript)\<rparr>;
          w9 = progress_update e w8 (py ''Building semantic index...'')
                 (Some 90) (Some video_id) None None (Some total_chunks) None;
          w10 = embed_and_store w9 (e_index e full_transcript 750) (collection_name video_id);
          detected_language =
            (if falsy language
             then (case e_detect e (take 500 full_transcript) of
                     None \<Rightarrow> Some (py ''en'') | Some l \<Rightarrow> Some l)
             else language);
          final_info = \<lparr>vi_title = e_title e, vi_duration = actual_duration,
            vi_language = detected_language, vi_is_long_video = True,
            vi_chunks_total = total_chunks, vi_chunks_completed = total_chunks,
            vi_processing_status = Some (py ''complete''), vi_error_message = None\<rparr>;
          w11 = w10\<lparr>VIDEO_INFO_DIR :=
                   (VIDEO_INFO_DIR w10)(video_info_file video_id \<mapsto> final_info)\<rparr>
      in progress_update e w11 (py ''Processing complete!'')
           (Some 100) (Some video_id) None None (Some total_chunks) None)"

text \<open>
  \<open>process_long_video\<close> up to the end of its loop (line 1003): the start and the loop
  over the chunks in order. The result is the state after the last round, the chunk
  transcripts, the number of chunks and the duration of the audio.
\<close>

definition long_video_loop ::
  "unicode \<Rightarrow> env \<Rightarrow> world \<Rightarrow> pystr \<Rightarrow> pystr option \<Rightarrow>
   (pystr \<times> world) + (world \<times> pystr list \<times> int \<times> real)" where
  "long_video_loop U e w0 video_id language =
     (case long_video_start e w0 video_id of
        Inl exn \<Rightarrow> Inl exn
      | Inr (w6, chunk_dur, total_chunks, actual_duration) \<Rightarrow>
          (case foldl (process_chunk U e video_id language chunk_dur total_chunks actual_duration)
                  (w6, []) [0..<nat total_chunks] of
             (w7, all_transcripts) \<Rightarrow> Inr (w7, all_transcripts, total_chunks, actual_duration)))"

text \<open>
  The body of \<open>process_long_video\<close> inside its outer \<open>try\<close>: the start and the loop,
  then the end.
\<close>

definition long_video_body ::
  "unicode \<Rightarrow> env \<Rightarrow> world \<Rightarrow> pystr \<Rightarrow> pystr option \<Rightarrow> (pystr \<times> world) + world" where
  "long_video_body U e w0 video_id language =
     (case long_video_loop U e w0 video_id language of
        Inl exn \<Rightarrow> Inl exn
      | Inr (w7, all_transcripts, total_chunks, actual_duration) \<Rightarrow>
          Inr (long_video_finish e w7 all_transcripts video_id language total_chunks
                 actual_duration))"

text \<open>
  \<open>process_long_video\<close>: on an exception the record of the video, if it exists, gets
  the status \<open>error\<close> and the message.
\<close>

definition process_long_video ::
  "unicode \<Rightarrow> env \<Rightarrow> world \<Rightarrow> pystr \<Rightarrow> pystr option \<Rightarrow> world" where
  "process_long_video U e w0 video_id language =
     (case long_video_body U e w0 video_id language of
        Inr w \<Rightarrow> w
      | Inl (message, w) \<Rightarrow>
          (case VIDEO_INFO_DIR w (video_info_file video_id) of
             None \<Rightarrow> w
           | Some current_info \<Rightarrow>
               w\<lparr>VIDEO_INFO_DIR := (VIDEO_INFO_DIR w)(video_info_file video_id \<mapsto>
                    current_info\<lparr>vi_processing_status := Some (py ''error''),
                      vi_error_message := Some message\<rparr>)\<rparr>))"


section \<open>Fingerprints\<close>

text \<open>\<open>s.encode()\<close>: UTF-8; a surrogate code point raises \<open>UnicodeEncodeError\<close>.\<close>

definition utf8_char :: "nat \<Rightarrow> nat list option" where
  "utf8_char c =
     (if c < 0x80 then Some [c]
      else if c < 0x800 then Some [0xC0 + c div 64, 0x80 + c mod 64]
      else if 0xD800 \<le> c \<and> c \<le> 0xDFFF then None
      else if c < 0x10000
        then Some [0xE0 + c div 4096, 0x80 + c div 64 mod 64, 0x80 + c mod 64]
      else Some [0xF0 + c div 262144, 0x80 + c div 4096 mod 64, 0x80 + c div 64 mod 64,
                 0x80 + c mod 64])"

fun encode :: "pystr \<Rightarrow> nat list option" where
  "encode [] = Some []"
| "encode (c # cs) =
     (case utf8_char c of
        None \<Rightarrow> None
      | Some bs \<Rightarrow> (case encode cs of None \<Rightarrow> None | Some rest \<Rightarrow> Some (bs @ rest)))"

text \<open>
  \<open>hashlib.md5(bytes).hexdigest()\<close>: MD5 as RFC 1321 defines it, on 32-bit words held as
  natural numbers with the wrap-around written out.
\<close>

definition md5_K :: "nat list" where
  "md5_K = [0xd76aa478, 0xe8c7b756, 0x242070db, 0xc1bdceee, 0xf57c0faf, 0x4787c62a,
     0xa8304613, 0xfd469501, 0x698098d8, 0x8b44f7af, 0xffff5bb1, 0x895cd7be, 0x6b901122,
     0xfd987193, 0xa679438e, 0x49b40821, 0xf61e2562, 0xc040b340, 0x265e5a51, 0xe9b6c7aa,
     0xd62f105d, 0x02441453, 0xd8a1e681, 0xe7d3fbc8, 0x21e1cde6, 0xc33707d6, 0xf4d50d87,
     0x455a14ed, 0xa9e3e905, 0xfcefa3f8, 0x676f02d9, 0x8d2a4c8a, 0xfffa3942, 0x8771f681,
     0x6d9d6122, 0xfde5380c, 0xa4beea44, 0x4bdecfa9, 0xf6bb4b60, 0xbebfbc70, 0x289b7ec6,
     0xeaa127fa, 0xd4ef3085, 0x04881d05, 0xd9d4d039, 0xe6db99e5, 0x1fa27cf8, 0xc4ac5665,
     0xf4292244, 0x432aff97, 0xab9423a7, 0xfc93a039, 0x655b59c3, 0x8f0ccc92, 0xffeff47d,
     0x85845dd1, 0x6fa87e4f, 0xfe2ce6e0, 0xa3014314, 0x4e0811a1, 0xf7537e82, 0xbd3af235,
     0x2ad7d2bb, 0xeb86d391]"

definition md5_s :: "nat list" where
  "md5_s = [7, 12, 17, 22, 7, 12, 17, 22, 7, 12, 17, 22, 7, 12, 17, 22,
            5, 9, 14, 20, 5, 9, 14, 20, 5, 9, 14, 20, 5, 9, 14, 20,
            4, 11, 16, 23, 4, 11, 16, 23, 4, 11, 16, 23, 4, 11, 16, 23,
            6, 10, 15, 21, 6, 10, 15, 21, 6, 10, 15, 21, 6, 10, 15, 21]"

definition add32 :: "nat \<Rightarrow> nat \<Rightarrow> nat" where
  "add32 a b = (a + b) mod 4294967296"

definition not32 :: "nat \<Rightarrow> nat" where
  "not32 a = 4294967295 - a"

definition rotl32 :: "nat \<Rightarrow> nat \<Rightarrow> nat" where
  "rotl32 n w = (w * 2 ^ n) mod 4294967296 + w div 2 ^ (32 - n)"

type_synonym md5_state = "nat \<times> nat \<times> nat \<times> nat"

definition md5_round :: "nat \<Rightarrow> nat \<Rightarrow> nat \<Rightarrow> nat \<Rightarrow> nat" where
  "md5_round i B C D =
     (if i < 16 then (B AND C) OR (not32 B AND D)
      else if i < 32 then (D AND B) OR (not32 D AND C)
      else if i < 48 then B XOR C XOR D
      else C XOR (B OR not32 D))"

definition md5_index :: "nat \<Rightarrow> nat" where
  "md5_index i =
     (if i < 16 then i
      else if i < 32 then (5 * i + 1) mod 16
      else if i < 48 then (3 * i + 5) mod 16
      else (7 * i) mod 16)"

fun md5_step :: "nat list \<Rightarrow> md5_state \<Rightarrow> nat \<Rightarrow> md5_state" where
  "md5_step M (A, B, C, D) i =
     (D, add32 B (rotl32 (md5_s ! i)
           (add32 (add32 (add32 (md5_round i B C D) A) (md5_K ! i)) (M ! md5_index i))),
      B, C)"

fun le_words :: "nat list \<Rightarrow> nat list" where
  "le_words (a # b # c # d # rest) =
     (a + 256 * b + 65536 * c + 16777216 * d) # le_words rest"
| "le_words _ = []"

fun md5_add :: "md5_state \<Rightarrow> md5_state \<Rightarrow> md5_state" where
  "md5_add (a0, b0, c0, d0) (A, B, C, D) =
     (add32 a0 A, add32 b0 B, add32 c0 C, add32 d0 D)"

definition md5_block :: "md5_state \<Rightarrow> nat list \<Rightarrow> md5_state" where
  "md5_block st block = md5_add st (foldl (md5_step (le_words block)) st [0..<64])"

definition le_bytes4 :: "nat \<Rightarrow> nat list" where
  "le_bytes4 n = [n mod 256, n div 256 mod 256, n div 65536 mod 256, n div 16777216 mod 256]"

definition md5_pad :: "nat list \<Rightarrow> nat list" where
  "md5_pad bs =
     bs @ [128] @ replicate ((119 - length bs mod 64) mod 64) 0 @
     le_bytes4 ((8 * length bs) mod 4294967296) @
     le_bytes4 ((8 * length bs) div 4294967296 mod 4294967296)"

function md5_blocks :: "md5_state \<Rightarrow> nat list \<Rightarrow> md5_state" where
  "md5_blocks st bs =
     (if length bs < 64 then st else md5_blocks (md5_block st (take 64 bs)) (drop 64 bs))"
  by pat_completeness auto
termination
  by (relation "measure (\<lambda>(st, bs). length bs)") auto

declare md5_blocks.simps [simp del]

definition hex_digit :: "nat \<Rightarrow> nat" where
  "hex_digit d = (if d < 10 then 48 + d else 87 + d)"

definition hex_byte :: "nat \<Rightarrow> nat list" where
  "hex_byte b = [hex_digit (b div 16), hex_digit (b mod 16)]"

fun md5_digest :: "md5_state \<Rightarrow> nat list" where
  "md5_digest (a, b, c, d) = le_bytes4 a @ le_bytes4 b @ le_bytes4 c @ le_bytes4 d"

definition md5_hexdigest :: "nat list \<Rightarrow> pystr" where
  "md5_hexdigest bs =
     concat (map hex_byte (md5_digest
       (md5_blocks (0x67452301, 0xefcdab89, 0x98badcfe, 0x10325476) (md5_pad bs))))"

text \<open>\<open>str(b)\<close> of a Boolean and of an optional integer.\<close>

definition str_bool :: "bool \<Rightarrow> pystr" where
  "str_bool b = (if b then py ''True'' else py ''False'')"

definition str_opt :: "int option \<Rightarrow> pystr" where
  "str_opt v = (case v of None \<Rightarrow> py ''None'' | Some i \<Rightarrow> str_int i)"

text \<open>\<open>re.sub(r'[^\w\s]', '', question.lower())\<close>.\<close>

definition clean_q :: "unicode \<Rightarrow> pystr \<Rightarrow> pystr" where
  "clean_q U question = filter (\<lambda>c. u_isword U c \<or> u_isspace U c) (u_lower U question)"

text \<open>
  The fingerprints of \<open>ask\<close> in \<open>app.py\<close>: line 686 for a question on the whole
  transcript, lines 611 to 613 for a question on a time window. \<open>None\<close> stands for the
  \<open>UnicodeEncodeError\<close> of \<open>encode\<close>.
\<close>

definition question_text :: "unicode \<Rightarrow> pystr \<Rightarrow> pystr \<Rightarrow> bool \<Rightarrow> pystr" where
  "question_text U question language is_followup =
     clean_q U question @ py ''_'' @ language @ py ''_'' @ str_bool is_followup"

definition q_hash :: "unicode \<Rightarrow> pystr \<Rightarrow> pystr \<Rightarrow> bool \<Rightarrow> pystr option" where
  "q_hash U question language is_followup =
     map_option md5_hexdigest (encode (question_text U question language is_followup))"

definition window_text :: "pystr \<Rightarrow> pystr \<Rightarrow> int option \<Rightarrow> int option \<Rightarrow> pystr" where
  "window_text question language start_time_sec end_time_sec =
     question @ py ''_'' @ language @ py ''_'' @ str_opt start_time_sec @ py ''_'' @
     str_opt end_time_sec"

definition time_segment_hash ::
  "pystr \<Rightarrow> pystr \<Rightarrow> int option \<Rightarrow> int option \<Rightarrow> pystr option" where
  "time_segment_hash question language start_time_sec end_time_sec =
     map_option md5_hexdigest
       (encode (window_text question language start_time_sec end_time_sec))"

section \<open>Classifying a question\<close>

text \<open>\<open>sub in s\<close> for strings.\<close>

fun contains :: "pystr \<Rightarrow> pystr \<Rightarrow> bool" where
  "contains [] sub = (sub = [])"
| "contains (c # cs) sub = (startswith (c # cs) sub \<or> contains cs sub)"

text \<open>
  The word boundary \<open>\b\<close> of a regular expression at position \<open>k\<close> of \<open>s\<close>: one side
  is a word character and the other is not.
\<close>

definition word_at :: "unicode \<Rightarrow> pystr \<Rightarrow> nat \<Rightarrow> bool" where
  "word_at U s k = (k < length s \<and> u_isword U (s ! k))"

definition boundary :: "unicode \<Rightarrow> pystr \<Rightarrow> nat \<Rightarrow> bool" where
  "boundary U s k = ((k > 0 \<and> word_at U s (k - 1)) \<noteq> word_at U s k)"

definition match_at :: "pystr \<Rightarrow> nat \<Rightarrow> pystr \<Rightarrow> bool" where
  "match_at s k w = (take (length w) (drop k s) = w)"

text \<open>\<open>re.search(r'\b(w1|w2|...)\b', s)\<close> and \<open>re.search(r'^(w1|w2|...)\b', s)\<close>.\<close>

definition search_word :: "unicode \<Rightarrow> pystr list \<Rightarrow> pystr \<Rightarrow> bool" where
  "search_word U ws s =
     list_ex (\<lambda>k. list_ex (\<lambda>w. boundary U s k \<and> match_at s k w \<and>
                                   boundary U s (k + length w)) ws)
       [0..<Suc (length s)]"

definition search_start :: "unicode \<Rightarrow> pystr list \<Rightarrow> pystr \<Rightarrow> bool" where
  "search_start U ws s = list_ex (\<lambda>w. match_at s 0 w \<and> boundary U s (length w)) ws"

text \<open>\<open>is_followup_question\<close> (the same function in \<open>app.py\<close> and \<open>qa_system.py\<close>).\<close>

definition is_followup_question :: "unicode \<Rightarrow> pystr \<Rightarrow> bool" where
  "is_followup_question U query =
     (let q = u_lower U query in
      search_word U (map py [''it'', ''this'', ''that'', ''these'', ''those'']) q \<or>
      search_word U (map py [''he'', ''she'', ''they'']) q \<or>
      search_start U (map py [''and'', ''but'', ''so'', ''because'']) q \<or>
      search_start U (map py [''what about'', ''how about'']) q \<or>
      search_start U (map py [''why'', ''when'', ''where'', ''how'']) q)"

text \<open>\<open>s.split()\<close>: the runs of characters that are not whitespace.\<close>

fun split_ws :: "unicode \<Rightarrow> pystr \<Rightarrow> pystr \<Rightarrow> pystr list" where
  "split_ws U cur [] = (if cur = [] then [] else [cur])"
| "split_ws U cur (c # cs) =
     (if u_isspace U c then (if cur = [] then split_ws U [] cs else cur # split_ws U [] cs)
      else split_ws U (cur @ [c]) cs)"

definition video_indicators :: "pystr list" where
  "video_indicators = map py
     [''in the video'', ''the video'', ''this video'',
      ''transcript'', ''in it'', ''they say'', ''mention'',
      ''talk about'', ''discuss'', ''explain'', ''show'',
      ''demonstrate'', ''what does'', ''where is'', ''when does'',
      ''how many'', ''why did'', ''who is'',
      ''summary'', ''summarize'', ''summarized'', ''summry'', ''summrized'',
      ''recap'', ''overview'', ''sum up'', ''synopsis'',
      ''main points'', ''key points'', ''highlights'',
      ''long summary'', ''short summary'', ''brief summary'',
      ''detailed summary'', ''full summary'', ''quick summary'']"

definition casual_indicators :: "pystr list" where
  "casual_indicators = map py
     [''hello'', ''hi there'', ''thank you'', ''thanks'',
      ''how are you'', ''good morning'', ''good afternoon'',
      ''i want'', ''please get me'', ''give me'', ''i need'',
      ''can i have'', ''bring me'', ''i would like'']"

definition exceptions :: "pystr list" where
  "exceptions = map py
     [''i need summary'', ''i need a summary'', ''i need the summary'',
      ''i need long'', ''i need a long'', ''i need the long'',
      ''i need short'', ''i need a short'', ''i need the short'',
      ''give me summary'', ''give me a summary'', ''give me the summary'',
      ''i want summary'', ''i want a summary'', ''i want the summary'']"

definition is_video_related_question :: "unicode \<Rightarrow> pystr \<Rightarrow> pystr option \<Rightarrow> bool" where
  "is_video_related_question U question video_title =
     (let question_lower = u_lower U question in
      if list_ex (contains question_lower) exceptions then True
      else if list_ex (contains question_lower) video_indicators then True
      else if list_ex (contains question_lower) casual_indicators then
        (contains question_lower (py ''summary'') \<or> contains question_lower (py ''summarize'') \<or>
         contains question_lower (py ''recap''))
      else if (case video_title of
                 None \<Rightarrow> False
               | Some title \<Rightarrow>
                   list_ex (\<lambda>word. contains question_lower (u_lower U word))
                     (filter (\<lambda>word. length word > 3) (split_ws U [] title)))
      then True
      else True)"

definition summary_terms :: "pystr list" where
  "summary_terms = map py
     [''summary'', ''summarize'', ''summarized'', ''summarization'', ''sum up'',
      ''brief'', ''overview'', ''recap'', ''synopsis'', ''tldr'', ''main points'',
      ''key points''] @
     [[1605, 1604, 1582, 1589], [1604, 1582, 1589], [1578, 1604, 1582, 1610, 1589],
      [1605, 1608, 1580, 1586], [1606, 1576, 1584, 1577],
      [1571, 1607, 1605, 32, 1575, 1604, 1606, 1602, 1575, 1591]]"

definition is_summary_request :: "unicode \<Rightarrow> pystr \<Rightarrow> bool" where
  "is_summary_request U query = list_ex (contains (u_lower U query)) summary_terms"


section \<open>qa\_system.py\<close>

definition truthy :: "pystr option \<Rightarrow> bool" where
  "truthy v = (v \<noteq> None \<and> v \<noteq> Some [])"

definition get_video_title :: "world \<Rightarrow> pystr \<Rightarrow> pystr" where
  "get_video_title w video_id =
     (case VIDEO_INFO_DIR w (video_info_file video_id) of
        None \<Rightarrow> py ''Video '' @ video_id
      | Some video_info \<Rightarrow> vi_title video_info)"

definition retrieve_relevant_context :: "env \<Rightarrow> world \<Rightarrow> pystr \<Rightarrow> pystr \<Rightarrow> pystr list" where
  "retrieve_relevant_context e w question video_id =
     (case CHROMA_DIR w (collection_name video_id) of
        None \<Rightarrow> []
      | Some documents \<Rightarrow> e_retrieve e documents question)"

text \<open>\<open>get_cached_answer\<close>: the memory cache first, then the file of the video.\<close>

definition get_cached_answer :: "world \<Rightarrow> pystr \<Rightarrow> pystr \<Rightarrow> pystr option \<times> world" where
  "get_cached_answer w hash_key video_id =
     (case (case memory_cache w video_id of None \<Rightarrow> None | Some m \<Rightarrow> m hash_key) of
        Some answer \<Rightarrow> (Some answer, w)
      | None \<Rightarrow>
          (case CACHE_DIR w (cache_file video_id) of
             None \<Rightarrow> (None, w)
           | Some cache \<Rightarrow>
               let answer = cache hash_key in
               if truthy answer
               then (answer,
                     w\<lparr>memory_cache := (memory_cache w)(video_id \<mapsto>
                          (case memory_cache w video_id of None \<Rightarrow> Map.empty | Some m \<Rightarrow> m)
                            (hash_key := answer))\<rparr>)
               else (answer, w)))"

definition save_to_cache :: "world \<Rightarrow> pystr \<Rightarrow> pystr \<Rightarrow> pystr \<Rightarrow> world" where
  "save_to_cache w hash_key answer video_id =
     w\<lparr>memory_cache := (memory_cache w)(video_id \<mapsto>
          (case memory_cache w video_id of None \<Rightarrow> Map.empty | Some m \<Rightarrow> m)
            (hash_key \<mapsto> answer)),
       CACHE_DIR := (CACHE_DIR w)(cache_file video_id \<mapsto>
          (case CACHE_DIR w (cache_file video_id) of None \<Rightarrow> Map.empty | Some d \<Rightarrow> d)
            (hash_key \<mapsto> answer))\<rparr>"

text \<open>
  \<open>generate_prompt\<close> and \<open>generate_agent_prompt\<close>: the conversation history is spelled
  out in the prompt when it is given and not empty.
\<close>

definition generate_prompt ::
  "bool \<Rightarrow> pystr \<Rightarrow> pystr list \<Rightarrow> pystr \<Rightarrow> (pystr \<times> pystr) list option \<Rightarrow> prompt" where
  "generate_prompt agent question context language conversation_history =
     \<lparr>p_agent = agent, p_language = language, p_question = question, p_context = context,
      p_history = (case conversation_history of None \<Rightarrow> [] | Some h \<Rightarrow> h)\<rparr>"

text \<open>Line 514: the fingerprint of \<open>ask_question\<close>.\<close>

definition qa_hash :: "unicode \<Rightarrow> pystr \<Rightarrow> pystr \<Rightarrow> bool \<Rightarrow> pystr option" where
  "qa_hash U question language use_agent =
     map_option md5_hexdigest
       (encode (clean_q U question @ py ''_'' @ language @ py ''_'' @
                (if is_followup_question U question then py ''followup'' else py ''direct'') @
                py ''_'' @ str_bool use_agent))"

text \<open>
  Lines 606 to 612: the text after the first \<open>Final Answer:\<close>, up to the first blank
  line or the end (the lazy group of the regular expression), stripped.
\<close>

fun after_first :: "pystr \<Rightarrow> pystr \<Rightarrow> pystr option" where
  "after_first sub [] = (if sub = [] then Some [] else None)"
| "after_first sub (c # cs) =
     (if startswith (c # cs) sub then Some (drop (length sub) (c # cs))
      else after_first sub cs)"

fun lazy_group :: "pystr \<Rightarrow> pystr" where
  "lazy_group [] = []"
| "lazy_group (c # cs) =
     (if c # cs = [10] \<or> startswith (c # cs) [10, 10] then [] else c # lazy_group cs)"

definition final_answer :: "unicode \<Rightarrow> pystr \<Rightarrow> pystr" where
  "final_answer U answer =
     (case after_first (py ''Final Answer:'') answer of
        None \<Rightarrow> answer
      | Some rest \<Rightarrow> strip U (lazy_group rest))"

definition not_related_message :: "pystr \<Rightarrow> pystr" where
  "not_related_message language =
     (if language = py ''ar''
      then [1575, 1604, 1585, 1580, 1575, 1569, 32, 1591, 1585, 1581, 32, 1587, 1572, 1575,
            1604, 32, 1605, 1578, 1593, 1604, 1602, 32, 1576, 1575, 1604, 1601, 1610, 1583,
            1610, 1608, 46]
      else py ''Please ask a question related to the video transcript.'')"

definition no_transcript_message :: "pystr \<Rightarrow> pystr" where
  "no_transcript_message language =
     (if language = py ''ar''
      then [1593, 1584, 1585, 1575, 1611, 1548, 32, 1604, 1575, 32, 1610, 1608, 1580, 1583,
            32, 1606, 1589, 32, 1605, 1578, 1575, 1581, 32, 1604, 1607, 1584, 1575, 32, 1575,
            1604, 1601, 1610, 1583, 1610, 1608, 46]
      else py ''Sorry, there is no transcript available for this video.'')"

definition error_message :: "pystr \<Rightarrow> pystr" where
  "error_message language =
     (if language = py ''ar''
      then [1593, 1584, 1585, 1575, 1611, 1548, 32, 1581, 1583, 1579, 32, 1582, 1591, 1571,
            32, 1571, 1579, 1606, 1575, 1569, 32, 1605, 1593, 1575, 1604, 1580, 1577, 32,
            1575, 1604, 1587, 1572, 1575, 1604, 46, 32, 1575, 1604, 1585, 1580, 1575, 1569,
            32, 1575, 1604, 1605, 1581, 1575, 1608, 1604, 1577, 32, 1605, 1585, 1577, 32,
            1571, 1582, 1585, 1609, 46]
      else py ''Sorry, an error occurred while processing your question. Please try again.'')"

text \<open>
  \<open>summarize_transcript(transcript, "medium", language)\<close>: a transcript of fewer than
  50 characters is refused; otherwise the summary comes from the chat completion.
\<close>

definition summarize_transcript :: "unicode \<Rightarrow> env \<Rightarrow> world \<Rightarrow> pystr \<Rightarrow> pystr \<Rightarrow> pystr \<times> world" where
  "summarize_transcript U e w transcript language =
     (if transcript = [] \<or> length (strip U transcript) < 50
      then (if language = py ''ar''
            then [1575, 1604, 1606, 1589, 32, 1602, 1589, 1610, 1585, 32, 1580, 1583, 1611,
                  1575, 32, 1604, 1604, 1578, 1604, 1582, 1610, 1589, 46]
            else py ''The transcript is too short to summarize.'', w)
      else (e_summarize e transcript language,
            w\<lparr>chat_log := chat_log w @ [Summarize transcript language]\<rparr>))"

text \<open>
  Lines 523 to 624 of \<open>ask_question\<close>: the context is retrieved, the prompt is built and
  sent, and the answer is cached when \<open>use_cache\<close> holds.
\<close>

definition chat_answer ::
  "unicode \<Rightarrow> env \<Rightarrow> world \<Rightarrow> pystr \<Rightarrow> pystr \<Rightarrow> pystr \<Rightarrow> pystr \<Rightarrow> bool \<Rightarrow>
   (pystr \<times> pystr) list option \<Rightarrow> pystr \<Rightarrow> bool \<Rightarrow> pystr \<times> world" where
  "chat_answer U e w1 question transcript video_id language use_agent conversation_history
       hash_key use_cache =
     (let retrieved = (if video_id \<noteq> []
                       then retrieve_relevant_context e w1 question video_id else []);
          context = (if retrieved = [] then e_windows e transcript else retrieved);
          prompt = generate_prompt use_agent question context language conversation_history;
          w2 = w1\<lparr>chat_log := chat_log w1 @ [Question prompt]\<rparr>
      in
      (case e_chat e prompt of
         None \<Rightarrow> (error_message language, w2)
       | Some content \<Rightarrow>
           let answer = strip U content;
               answer' = (if use_agent \<and> contains answer (py ''Final Answer:'')
                          then final_answer U answer else answer)
           in (answer',
               if use_cache then save_to_cache w2 hash_key answer' video_id else w2)))"

text \<open>
  \<open>ask_question\<close>. \<open>Inl UnicodeEncodeError\<close> is the exception of line 514, which the
  function does not catch.
\<close>

definition ask_question ::
  "unicode \<Rightarrow> env \<Rightarrow> world \<Rightarrow> pystr \<Rightarrow> pystr \<Rightarrow> pystr \<Rightarrow> pystr \<Rightarrow> bool \<Rightarrow>
   (pystr \<times> pystr) list option \<Rightarrow> pystr option \<Rightarrow> error + (pystr \<times> world)" where
  "ask_question U e w question transcript video_id language use_agent
       conversation_history video_title =
     (let video_title' = (if \<not> truthy video_title \<and> video_id \<noteq> []
                          then Some (get_video_title w video_id) else video_title);
          no_history = (conversation_history = None \<or> conversation_history = Some [])
      in
      if (no_history \<or> \<not> is_followup_question U question) \<and>
         \<not> is_video_related_question U question video_title'
      then Inr (not_related_message language, w)
      else if transcript = [] \<or> length (strip U transcript) < 10
      then Inr (no_transcript_message language, w)
      else if is_summary_request U question
      then Inr (summarize_transcript U e w transcript language)
      else
        (case qa_hash U question language use_agent of
           None \<Rightarrow> Inl UnicodeEncodeError
         | Some hash_key \<Rightarrow>
             let use_cache = (\<not> is_followup_question U question \<or> no_history);
                 lookup = (if use_cache then get_cached_answer w hash_key video_id else (None, w))
             in
             if use_cache \<and> truthy (fst lookup) then Inr (the (fst lookup), snd lookup)
             else Inr (chat_answer U e (snd lookup) question transcript video_id language
                         use_agent conversation_history hash_key use_cache)))"

section \<open>app.py: the transcript of a time window\<close>

text \<open>
  The regular expression \<open>\[(?:~)?(\d+):(\d+)\]\<close> matched at the head of \<open>s\<close>: the
  minutes, the seconds and the text after the match.
\<close>

definition take_digits :: "unicode \<Rightarrow> pystr \<Rightarrow> pystr" where
  "take_digits U s = takeWhile (\<lambda>c. u_decimal U c \<noteq> None) s"

definition int_of_digits :: "unicode \<Rightarrow> pystr \<Rightarrow> nat" where
  "int_of_digits U ds =
     foldl (\<lambda>n c. 10 * n + (case u_decimal U c of None \<Rightarrow> 0 | Some d \<Rightarrow> d)) 0 ds"

definition match_stamp :: "unicode \<Rightarrow> pystr \<Rightarrow> (nat \<times> nat \<times> pystr) option" where
  "match_stamp U s =
     (case s of
        [] \<Rightarrow> None
      | c # s1 \<Rightarrow>
          if c \<noteq> 91 then None
          else
            let s2 = (case s1 of [] \<Rightarrow> [] | t # r \<Rightarrow> if t = 126 then r else s1);
                d1 = take_digits U s2;
                s3 = drop (length d1) s2
            in if d1 = [] then None
               else (case s3 of
                       [] \<Rightarrow> None
                     | c3 # s4 \<Rightarrow>
                         if c3 \<noteq> 58 then None
                         else
                           let d2 = take_digits U s4;
                               s5 = drop (length d2) s4
                           in if d2 = [] then None
                              else (case s5 of
                                      [] \<Rightarrow> None
                                    | c5 # s6 \<Rightarrow>
                                        if c5 \<noteq> 93 then None
                                        else Some (int_of_digits U d1, int_of_digits U d2, s6))))"

text \<open>\<open>re.search\<close> of the expression in a line: the leftmost match.\<close>

fun search_stamp :: "unicode \<Rightarrow> pystr \<Rightarrow> (nat \<times> nat) option" where
  "search_stamp U [] = None"
| "search_stamp U (c # cs) =
     (case match_stamp U (c # cs) of
        Some r \<Rightarrow> Some (fst r, fst (snd r))
      | None \<Rightarrow> search_stamp U cs)"

lemma drop_Cons_shorter: "drop k xs = y # ys \<Longrightarrow> length ys < length xs"
proof -
  assume "drop k xs = y # ys"
  then have "length (drop k xs) = Suc (length ys)" by simp
  then show ?thesis by simp
qed

lemma match_stamp_shorter: "match_stamp U s = Some (m, n, rest) \<Longrightarrow> length rest < length s"
  by (auto simp: match_stamp_def Let_def split: list.splits if_splits dest!: drop_Cons_shorter)

text \<open>\<open>re.sub\<close> of the expression by the empty string: every match is removed.\<close>

function remove_stamps :: "unicode \<Rightarrow> pystr \<Rightarrow> pystr" where
  "remove_stamps U s =
     (case match_stamp U s of
        Some r \<Rightarrow> remove_stamps U (snd (snd r))
      | None \<Rightarrow> (case s of [] \<Rightarrow> [] | c # cs \<Rightarrow> c # remove_stamps U cs))"
  by pat_completeness auto
termination
  by (relation "measure (\<lambda>(U, s). length s)") (auto dest: match_stamp_shorter)

declare remove_stamps.simps [simp del]

text \<open>
  The loop over the lines (lines 222 to 244): the segments found so far, the time of the
  current marker and the text gathered after it.
\<close>

type_synonym parse_state = "(nat \<times> pystr) list \<times> nat \<times> pystr"

definition parse_line :: "unicode \<Rightarrow> parse_state \<Rightarrow> pystr \<Rightarrow> parse_state" where
  "parse_line U st line =
     (case st of (segments, current_time, current_text) \<Rightarrow>
        (case search_stamp U line of
           Some (minutes, seconds) \<Rightarrow>
             (if current_text \<noteq> [] \<and> current_time > 0
              then segments @ [(current_time, strip U current_text)] else segments,
              minutes * 60 + seconds,
              remove_stamps U line)
         | None \<Rightarrow>
             (segments, current_time,
              if current_text \<noteq> [] then current_text @ py '' '' @ line else line)))"

definition parse_segments :: "unicode \<Rightarrow> pystr \<Rightarrow> (nat \<times> pystr) list" where
  "parse_segments U transcript =
     (case foldl (parse_line U) ([], 0, []) (split_newline transcript) of
        (segments, current_time, current_text) \<Rightarrow>
          if current_text \<noteq> [] \<and> current_time > 0
          then segments @ [(current_time, strip U current_text)] else segments)"

definition format_segment :: "nat \<times> pystr \<Rightarrow> pystr" where
  "format_segment seg =
     py ''['' @ str_nat (fst seg div 60) @ py '':'' @ str_int02 (int (fst seg mod 60)) @
     py ''] '' @ snd seg"

text \<open>\<open>min(xs, key=...)\<close>: the first element of least key; \<open>xs.index(x)\<close>.\<close>

fun min_by :: "('a \<Rightarrow> real) \<Rightarrow> 'a \<Rightarrow> 'a list \<Rightarrow> 'a" where
  "min_by key best [] = best"
| "min_by key best (x # xs) =
     (if key x < key best then min_by key x xs else min_by key best xs)"

fun index_of :: "'a list \<Rightarrow> 'a \<Rightarrow> nat" where
  "index_of [] x = 0"
| "index_of (y # ys) x = (if y = x then 0 else Suc (index_of ys x))"

definition closest_segments :: "(nat \<times> pystr) list \<Rightarrow> real \<Rightarrow> real \<Rightarrow> (nat \<times> pystr) list" where
  "closest_segments segments start_time_sec end_time_sec =
     (let closest_start =
            min_by (\<lambda>x. \<bar>real (fst x) - start_time_sec\<bar>) (hd segments) (tl segments);
          closest_end =
            min_by (\<lambda>x. \<bar>real (fst x) - end_time_sec\<bar>) (hd segments) (tl segments);
          start_idx = index_of segments closest_start;
          end_idx = index_of segments closest_end;
          lo = (if start_idx > end_idx then end_idx else start_idx);
          hi = (if start_idx > end_idx then start_idx else end_idx)
      in take (hi + 1 - lo) (drop lo segments))"

definition extract_transcript_segment ::
  "unicode \<Rightarrow> pystr \<Rightarrow> real \<Rightarrow> real \<Rightarrow> real \<Rightarrow> pystr" where
  "extract_transcript_segment U transcript start_time_sec end_time_sec video_duration =
     (if transcript = [] then []
      else if end_time_sec - start_time_sec < 60 then transcript
      else
        let segments = parse_segments U transcript in
        if segments = [] then transcript
        else
          let start_with_padding = max 0 (start_time_sec - 30);
              end_with_padding = min video_duration (end_time_sec + 30);
              in_range = filter (\<lambda>seg. start_with_padding \<le> real (fst seg) \<and>
                                        real (fst seg) \<le> end_with_padding) segments;
              relevant_segments =
                (if in_range = [] then closest_segments segments start_time_sec end_time_sec
                 else in_range)
          in if relevant_segments \<noteq> []
             then join (py [CHR 10, CHR 10]) (map format_segment relevant_segments)
             else transcript)"

section \<open>app.py: answering a question\<close>

record request =
  r_query :: pystr
  r_language :: pystr
  r_use_agent :: bool
  r_start_time :: "int option"
  r_end_time :: "int option"
  r_is_followup :: "bool option"
  r_session_id :: "pystr option"

text \<open>
  The response: an answer with the \<open>cached\<close> flag when the response carries one, the
  notice that the video is still processed, or the status 500 of an exception.
\<close>

datatype response = Reply pystr "bool option" | In_progress pystr | Failure error

text \<open>
  \<open>get_conversation_history\<close>: the session id of the request, or a fresh one made of
  the video id and the clock; the history of an unknown session starts empty.
\<close>

definition get_conversation_history ::
  "env \<Rightarrow> world \<Rightarrow> pystr option \<Rightarrow> pystr \<Rightarrow> pystr \<times> world" where
  "get_conversation_history e w session video_id =
     (let fresh = \<not> truthy session;
          session_id = (if fresh
                        then video_id @ py ''_'' @ str_int (py_int (e_clock e (ticks w)))
                        else the session);
          w1 = (if fresh then w\<lparr>ticks := Suc (ticks w)\<rparr> else w)
      in (session_id,
          (case conversation_histories w1 session_id of
             None \<Rightarrow> w1\<lparr>conversation_histories := (conversation_histories w1)(session_id \<mapsto> [])\<rparr>
           | Some h \<Rightarrow> w1)))"

definition history_of :: "world \<Rightarrow> pystr \<Rightarrow> (pystr \<times> pystr) list" where
  "history_of w session_id =
     (case conversation_histories w session_id of None \<Rightarrow> [] | Some h \<Rightarrow> h)"

text \<open>The turn is appended and the history cut to its last 10 turns.\<close>

definition append_turn :: "world \<Rightarrow> pystr \<Rightarrow> pystr \<times> pystr \<Rightarrow> world" where
  "append_turn w session_id turn =
     (let h = history_of w session_id @ [turn];
          h' = (if length h > 10 then tl h else h)
      in w\<lparr>conversation_histories := (conversation_histories w)(session_id \<mapsto> h')\<rparr>)"

text \<open>
  Line 718: \<open>re.sub(r'(?i)^final\s+answer\s*:\s*', '', answer).strip()\<close>.
\<close>

fun match_caseless :: "unicode \<Rightarrow> pystr \<Rightarrow> pystr \<Rightarrow> pystr option" where
  "match_caseless U [] s = Some s"
| "match_caseless U (p # ps) [] = None"
| "match_caseless U (p # ps) (c # cs) =
     (if u_caseless U p c then match_caseless U ps cs else None)"

definition strip_final_answer :: "unicode \<Rightarrow> pystr \<Rightarrow> pystr" where
  "strip_final_answer U answer =
     strip U
       (case match_caseless U (py ''final'') answer of
          None \<Rightarrow> answer
        | Some s1 \<Rightarrow>
            if s1 = [] \<or> \<not> u_isspace U (hd s1) then answer
            else (case match_caseless U (py ''answer'') (lstrip U s1) of
                    None \<Rightarrow> answer
                  | Some s2 \<Rightarrow>
                      (case lstrip U s2 of
                         [] \<Rightarrow> answer
                       | c # s3 \<Rightarrow> if c = 58 then lstrip U s3 else answer)))"

definition asked_messages :: "pystr \<Rightarrow> pystr \<times> pystr \<times> pystr" where
  "asked_messages language =
     (if language = py ''ar''
      then ([1575, 1604, 1585, 1580, 1575, 1569, 32, 1591, 1585, 1581, 32, 1587, 1572, 1575,
             1604],
            [1601, 1610, 1583, 1610, 1608, 32, 1594, 1610, 1585, 32, 1605, 1608, 1580, 1608,
             1583],
            [1604, 1575, 32, 1610, 1608, 1580, 1583, 32, 1606, 1589, 32, 1605, 1578, 1575,
             1581, 46, 46, 46])
      else (py ''Please ask a question.'', py ''Video not found.'',
            py ''No transcript available...''))"

definition processing_message :: "pystr \<Rightarrow> int \<Rightarrow> pystr" where
  "processing_message language completion_percentage =
     (if language = py ''ar''
      then [1580, 1575, 1585, 1610, 32, 1605, 1593, 1575, 1604, 1580, 1577, 32, 1575, 1604,
            1601, 1610, 1583, 1610, 1608, 32, 40] @ str_int completion_percentage @
           [37, 32, 1605, 1603, 1578, 1605, 1604, 41, 46, 32, 1610, 1585, 1580, 1609, 32,
            1575, 1604, 1605, 1581, 1575, 1608, 1604, 1577, 32, 1604, 1575, 1581, 1602, 1611,
            1575, 46]
      else py ''Video is still processing ('' @ str_int completion_percentage @
           py ''% complete). Please try again later.'')"

text \<open>The end of a request that has an answer: the turn enters the history.\<close>

definition finish ::
  "world \<Rightarrow> pystr \<Rightarrow> pystr \<Rightarrow> pystr \<Rightarrow> bool \<Rightarrow> response \<times> pystr option \<times> world" where
  "finish w session_id question answer cached =
     (Reply answer (Some cached), Some session_id, append_turn w session_id (question, answer))"

text \<open>Lines 598 to 678: a question on a time window.\<close>

definition ask_time_window ::
  "unicode \<Rightarrow> env \<Rightarrow> world \<Rightarrow> pystr \<Rightarrow> request \<Rightarrow> video_info \<Rightarrow> pystr \<Rightarrow> pystr \<Rightarrow> bool \<Rightarrow>
   response \<times> pystr option \<times> world" where
  "ask_time_window U e w video_id req video_info full_transcript session_id is_followup =
     (let question = r_query req;
          language = r_language req;
          start_sec = (case r_start_time req of None \<Rightarrow> 0 | Some v \<Rightarrow> of_int v);
          end_sec = (case r_end_time req of
                       None \<Rightarrow> vi_duration video_info
                     | Some v \<Rightarrow> if v = 0 then vi_duration video_info else of_int v);
          segment_transcript =
            extract_transcript_segment U full_transcript start_sec end_sec
              (vi_duration video_info)
      in case time_segment_hash question language (r_start_time req) (r_end_time req) of
           None \<Rightarrow> (Failure UnicodeEncodeError, Some session_id, w)
         | Some hash_key \<Rightarrow>
             let file = segments_cache_file video_id;
                 cached_answer = (case CACHE_DIR w file of None \<Rightarrow> None | Some d \<Rightarrow> d hash_key)
             in if truthy cached_answer
                then finish w session_id question (the cached_answer) True
                else
                  (case ask_question U e w question segment_transcript video_id language
                          (r_use_agent req)
                          (if is_followup then Some (history_of w session_id) else None)
                          (Some (vi_title video_info)) of
                     Inl err \<Rightarrow> (Failure err, Some session_id, w)
                   | Inr (answer, w1) \<Rightarrow>
                       let time_prefix =
                             py ''['' @ str_int \<lfloor>start_sec / 60\<rfloor> @ py '':'' @
                             str_int02 (py_int (py_fmod start_sec 60)) @ py '' - '' @
                             str_int \<lfloor>end_sec / 60\<rfloor> @ py '':'' @
                             str_int02 (py_int (py_fmod end_sec 60)) @ py ''] '';
                           answer' = time_prefix @ answer;
                           segment_cache = (case CACHE_DIR w1 file of
                                              None \<Rightarrow> Map.empty | Some d \<Rightarrow> d);
                           w2 = w1\<lparr>CACHE_DIR := (CACHE_DIR w1)(file \<mapsto>
                                     segment_cache(hash_key \<mapsto> answer'))\<rparr>
                       in finish w2 session_id question answer' False))"

text \<open>Lines 680 to 736: a question on the whole transcript.\<close>

definition ask_transcript ::
  "unicode \<Rightarrow> env \<Rightarrow> world \<Rightarrow> pystr \<Rightarrow> request \<Rightarrow> video_info \<Rightarrow> pystr \<Rightarrow> pystr \<Rightarrow> bool \<Rightarrow>
   response \<times> pystr option \<times> world" where
  "ask_transcript U e w video_id req video_info transcript session_id is_followup =
     (let question = r_query req;
          language = r_language req;
          use_agent = r_use_agent req
      in case q_hash U question language is_followup of
           None \<Rightarrow> (Failure UnicodeEncodeError, Some session_id, w)
         | Some hash_key \<Rightarrow>
             let file = cache_file video_id;
                 cached = (case CACHE_DIR w file of
                             None \<Rightarrow> None
                           | Some d \<Rightarrow> if \<not> is_followup then d hash_key else None)
             in if truthy cached
                then finish w session_id question (the cached) True
                else
                  (case ask_question U e w question transcript video_id language use_agent
                          (if is_followup then Some (history_of w session_id) else None)
                          (Some (vi_title video_info)) of
                     Inl err \<Rightarrow> (Failure err, Some session_id, w)
                   | Inr (answer, w1) \<Rightarrow>
                       let answer' = (if language = py ''ar'' \<and> use_agent
                                      then strip_final_answer U answer else answer);
                           w2 = (if \<not> is_followup
                                 then w1\<lparr>CACHE_DIR := (CACHE_DIR w1)(file \<mapsto>
                                        (case CACHE_DIR w1 file of
                                           None \<Rightarrow> Map.empty | Some d \<Rightarrow> d)
                                          (hash_key \<mapsto> answer'))\<rparr>
                                 else w1)
                       in finish w2 session_id question answer' False))"

text \<open>
  Lines 592 and 593: the flag of the request, or else the verdict of
  \<open>is_followup_question\<close> when the session has a history.
\<close>

definition classify_followup :: "unicode \<Rightarrow> request \<Rightarrow> (pystr \<times> pystr) list \<Rightarrow> bool" where
  "classify_followup U req conversation_history =
     (case r_is_followup req of
        None \<Rightarrow> is_followup_question U (r_query req) \<and> length conversation_history > 0
      | Some flag \<Rightarrow> flag)"

text \<open>
  \<open>ask\<close>: the request handler. The result is the response, the session id the client
  holds afterwards, and the new state.
\<close>

definition ask ::
  "unicode \<Rightarrow> env \<Rightarrow> world \<Rightarrow> pystr \<Rightarrow> request \<Rightarrow> response \<times> pystr option \<times> world" where
  "ask U e w video_id req =
     (let question = r_query req;
          language = r_language req
      in
      if question = [] then (Reply (fst (asked_messages language)) None, r_session_id req, w)
      else
        (case VIDEO_INFO_DIR w (video_info_file video_id) of
           None \<Rightarrow> (Reply (fst (snd (asked_messages language))) None, r_session_id req, w)
         | Some video_info \<Rightarrow>
             if vi_is_long_video video_info \<and>
                vi_processing_status video_info \<noteq> Some (py ''complete'') \<and>
                vi_chunks_completed video_info < vi_chunks_total video_info
             then
               (if vi_chunks_total video_info = 0
                then (Failure ZeroDivisionError, r_session_id req, w)
                else (In_progress (processing_message language
                        (percent_complete (vi_chunks_completed video_info)
                           (vi_chunks_total video_info))),
                      r_session_id req, w))
             else
               (case TRANSCRIPT_DIR w (transcript_file video_id) of
                  None \<Rightarrow> (Reply (snd (snd (asked_messages language))) None, r_session_id req, w)
                | Some transcript \<Rightarrow>
                    (case get_conversation_history e w (r_session_id req) video_id of
                       (session_id, w1) \<Rightarrow>
                         let is_followup =
                               classify_followup U req (history_of w1 session_id)
                         in if r_start_time req \<noteq> None \<or> r_end_time req \<noteq> None
                            then ask_time_window U e w1 video_id req video_info transcript
                                   session_id is_followup
                            else ask_transcript U e w1 video_id req video_info transcript
                                   session_id is_followup))))"

text \<open>
  The requests that \<open>ask\<close> answers from the transcript: there is a question, the
  record of the video exists and does not say that the video is still processed, and
  the transcript exists.
\<close>

definition reached :: "world \<Rightarrow> pystr \<Rightarrow> request \<Rightarrow> video_info \<Rightarrow> pystr \<Rightarrow> bool" where
  "reached w video_id req video_info transcript =
     (r_query req \<noteq> [] \<and> VIDEO_INFO_DIR w (video_info_file video_id) = Some video_info \<and>
      \<not> (vi_is_long_video video_info \<and>
         vi_processing_status video_info \<noteq> Some (py ''complete'') \<and>
         vi_chunks_completed video_info < vi_chunks_total video_info) \<and>
      TRANSCRIPT_DIR w (transcript_file video_id) = Some transcript)"

text \<open>Whether \<open>ask\<close> takes the question of a request for a follow-up, in a state.\<close>

definition ask_followup :: "unicode \<Rightarrow> env \<Rightarrow> world \<Rightarrow> pystr \<Rightarrow> request \<Rightarrow> bool" where
  "ask_followup U e w video_id req =
     (case get_conversation_history e w (r_session_id req) video_id of
        (session_id, w1) \<Rightarrow> classify_followup U req (history_of w1 session_id))"

section \<open>app.py: the request to process a video\<close>

datatype process_response = Processing_started | Processed pystr | HTTP_error nat pystr

text \<open>
  \<open>process\<close>, for a request whose URL gives the video id \<open>video_id\<close>: the tracker is
  reset, the data of the video is cleaned, and the video is processed at once (direct
  mode) or handed to the background task (chunked mode).
\<close>

definition process ::
  "unicode \<Rightarrow> env \<Rightarrow> world \<Rightarrow> pystr \<Rightarrow> pystr option \<Rightarrow> bool \<Rightarrow> process_response \<times> world" where
  "process U e w0 video_id language force_chunked =
     (let started = e_clock e (ticks w0);
          w1 = progress_update e (w0\<lparr>ticks := Suc (ticks w0)\<rparr>) (py ''Starting process...'')
                 (Some 0) (Some video_id) None None None (Some started);
          w2 = clean_video_data w1 video_id;
          w3 = progress_update e w2 (py ''Getting video information...'')
                 (Some 10) (Some video_id) None None None None;
          video_duration = e_duration e
      in
      if is_long_video video_duration force_chunked then
        (Processing_started,
         w3\<lparr>VIDEO_INFO_DIR := (VIDEO_INFO_DIR w3)(video_info_file video_id \<mapsto>
               \<lparr>vi_title = e_title e, vi_duration = video_duration, vi_language = language,
                vi_is_long_video = True, vi_chunks_total = 0, vi_chunks_completed = 0,
                vi_processing_status = Some (py ''initializing''),
                vi_error_message = None\<rparr>)\<rparr>)
      else
        let w4 = progress_update e w3 (py ''Downloading audio...'')
                   (Some 25) (Some video_id) None None None None
        in
        if \<not> e_download e then (HTTP_error 500 (py ''Failed to download audio''), w4)
        else
          let w5 = w4\<lparr>AUDIO_DIR := insert (audio_file video_id) (AUDIO_DIR w4)\<rparr>;
              max_segment_seconds = (if video_duration > 3600 then 60 else 120);
              w6 = progress_update e w5 (py ''Processing audio...'')
                     (Some 40) (Some video_id) None None None None
          in
          (case split_audio (e_check_ffmpeg e) True (e_audio_size e (audio_file video_id))
                  (e_audio_duration e (audio_file video_id))
                  (e_extracted e (audio_file video_id)) max_segment_seconds False of
             Inl err \<Rightarrow> (HTTP_error 500 (py ''Processing error''), w6)
           | Inr segs \<Rightarrow>
               if segs = [] then (HTTP_error 500 (py ''Failed to split audio''), w6)
               else
                 let w7 = progress_update e w6 (py ''Transcribing audio...'')
                            (Some 60) (Some video_id) None None None None;
                     segments = map (\<lambda>s. (audio_file video_id, seg_index s)) segs;
                     transcript =
                       transcribe_segments U (e_exists e) (e_stt e) (e_detect e) segments language
                 in
                 if strip U transcript = []
                 then (HTTP_error 500 (py ''Failed to transcribe audio''), w7)
                 else
                   let detected_language =
                         (if falsy language
                          then (case e_detect e (take 500 transcript) of
                                  None \<Rightarrow> Some (py ''en'') | Some l \<Rightarrow> Some l)
                          else language);
                       w8 = w7\<lparr>TRANSCRIPT_DIR :=
                              (TRANSCRIPT_DIR w7)(transcript_file video_id \<mapsto> transcript)\<rparr>;
                       chunk_size = (if length transcript > 200000 then 500 else 350);
                       w9 = progress_update e w8 (py ''Building semantic index...'')
                              (Some 80) (Some video_id) None None None None;
                       w10 = embed_and_store w9 (e_index e transcript chunk_size)
                               (collection_name video_id);
                       w11 = w10\<lparr>VIDEO_INFO_DIR :=
                               (VIDEO_INFO_DIR w10)(video_info_file video_id \<mapsto>
                                 \<lparr>vi_title = e_title e, vi_duration = e_duration e,
                                  vi_language = detected_language, vi_is_long_video = False,
                                  vi_chunks_total = 0, vi_chunks_completed = 0,
                                  vi_processing_status = None, vi_error_message = None\<rparr>)\<rparr>
                   in (Processed transcript,
                       progress_update e w11 (py ''Processing complete!'')
                         (Some 100) (Some video_id) None None None None)))"

text \<open>The request and the background task it starts, run to its end.\<close>

definition process_video ::
  "unicode \<Rightarrow> env \<Rightarrow> world \<Rightarrow> pystr \<Rightarrow> pystr option \<Rightarrow> bool \<Rightarrow> process_response \<times> world" where
  "process_video U e w0 video_id language force_chunked =
     (case process U e w0 video_id language force_chunked of
        (Processing_started, w) \<Rightarrow>
          (Processing_started, process_long_video U e w video_id language)
      | (r, w) \<Rightarrow> (r, w))"


section \<open>Example inputs\<close>

text \<open>
  A state with no data, a state in which the video \<open>v\<close> of 90 minutes is processed,
  and surroundings in which everything succeeds: the audio file of \<open>v\<close> has the
  announced duration and is cut into chunks of 20 minutes.
\<close>

definition empty_world :: world where
  "empty_world = \<lparr>progress_status = initial_progress, TRANSCRIPT_DIR = Map.empty,
     CACHE_DIR = Map.empty, AUDIO_DIR = {}, TEMP_DIR = {}, VIDEO_INFO_DIR = Map.empty,
     CHROMA_DIR = Map.empty, conversation_histories = Map.empty, memory_cache = Map.empty,
     ticks = 0, chat_log = []\<rparr>"

definition ready_world :: world where
  "ready_world = empty_world\<lparr>
     VIDEO_INFO_DIR := [py ''v.json'' \<mapsto>
       \<lparr>vi_title = py ''Talk'', vi_duration = 5400, vi_language = Some (py ''en''),
        vi_is_long_video = True, vi_chunks_total = 5, vi_chunks_completed = 5,
        vi_processing_status = Some (py ''complete''), vi_error_message = None\<rparr>],
     TRANSCRIPT_DIR := [py ''v.txt'' \<mapsto>
       py ''[00:00] The speaker talks about pricing.'' @ [10, 10] @
       py ''[20:00] Then about markets.'']\<rparr>"

definition demo_env :: env where
  "demo_env = \<lparr>e_clock = (\<lambda>k. 1000 + real k), e_title = py ''Talk'', e_duration = 5400,
     e_download = True, e_check_ffmpeg = True, e_audio_size = (\<lambda>f. 1000),
     e_audio_duration = (\<lambda>f. if f = py ''v.mp3'' then 5400 else 1200),
     e_extract_chunk = (\<lambda>i. True), e_extracted = (\<lambda>f i. True), e_exists = (\<lambda>s. True),
     e_stt = (\<lambda>s l. Some (py ''Text.'')), e_detect = (\<lambda>t. None), e_index = (\<lambda>t n. [t]),
     e_retrieve = (\<lambda>docs q. take 5 docs), e_windows = (\<lambda>t. [t]),
     e_chat = (\<lambda>p. Some (py ''An answer.'')), e_summarize = (\<lambda>t l. py ''A summary.'')\<rparr>"

text \<open>Surroundings in which the chat completion answers with a blank.\<close>

definition blank_env :: env where
  "blank_env = demo_env\<lparr>e_chat := (\<lambda>p. Some (py '' ''))\<rparr>"

text \<open>
  A question that is about the video, is no follow-up by its wording and asks for no
  summary; requests that ask it with the flag \<open>is_followup\<close> false, with the flag
  true, and on the window from 600 to 1200 seconds; and a state that holds answers of an
  earlier run for it: one in the memory cache, one in the cache of the time windows.
\<close>

definition demo_question :: pystr where
  "demo_question = py ''Who is Bo?''"

definition demo_request :: request where
  "demo_request = \<lparr>r_query = demo_question, r_language = py ''en'', r_use_agent = False,
     r_start_time = None, r_end_time = None, r_is_followup = Some False,
     r_session_id = Some (py ''s1'')\<rparr>"

definition followup_request :: request where
  "followup_request = demo_request\<lparr>r_is_followup := Some True\<rparr>"

definition window_request :: request where
  "window_request = demo_request\<lparr>r_start_time := Some 600, r_end_time := Some 1200\<rparr>"

definition demo_key :: pystr where
  "demo_key = the (q_hash ascii_db demo_question (py ''en'') False)"

definition demo_followup_key :: pystr where
  "demo_followup_key = the (q_hash ascii_db demo_question (py ''en'') True)"

definition demo_qa_key :: pystr where
  "demo_qa_key = the (qa_hash ascii_db demo_question (py ''en'') False)"

definition demo_window_key :: pystr where
  "demo_window_key = the (time_segment_hash demo_question (py ''en'') (Some 600) (Some 1200))"

definition stale_world :: world where
  "stale_world = ready_world\<lparr>
     CACHE_DIR := [py ''v_segments.json'' \<mapsto>
                    [demo_window_key \<mapsto> py ''[10:00 - 20:00] Old answer.'']],
     memory_cache := [py ''v'' \<mapsto> [demo_qa_key \<mapsto> py ''Old answer.'']]\<rparr>"

definition cached_world :: world where
  "cached_world = ready_world\<lparr>
     CACHE_DIR := [py ''v.json'' \<mapsto> [demo_qa_key \<mapsto> py ''Old answer.'']]\<rparr>"

section \<open>Evaluation\<close>

lemmas text_eval = py_def ascii_db_def ascii_islower_def ascii_isspace_def ascii_isword_def
  ascii_decimal_def ascii_lower_def ascii_caseless_def rstrip_def lstrip_def strip_def

section \<open>The join of the fragments\<close>





lemma VIDEO_INFO_DIR_progress_update [simp]:
  "VIDEO_INFO_DIR (progress_update e w a b c d f g h) = VIDEO_INFO_DIR w"
  by (simp add: progress_update_def)

lemma chunk_count_5: "4800 < a \<Longrightarrow> a \<le> 6000 \<Longrightarrow> chunk_count a 1200 = 5"
proof (cases "a = 6000")
  case True
  then show ?thesis by (simp add: chunk_count_def py_int_def py_fmod_def)
next
  case False
  assume a: "4800 < a" "a \<le> 6000"
  with False have lt: "a < 6000" by simp
  have fl: "\<lfloor>a / 1200\<rfloor> = 4" using a lt by (intro floor_unique) simp_all
  show ?thesis using a fl by (simp add: chunk_count_def py_int_def py_fmod_def)
qed

lemma estimate_fields [simp]:
  "ps_chunks_total (estimate_remaining now p) = ps_chunks_total p"
  "ps_chunks_completed (estimate_remaining now p) = ps_chunks_completed p"
  "ps_percentage (estimate_remaining now p) = ps_percentage p"
  by (simp_all add: estimate_remaining_def Let_def split: option.splits)

lemma update_progress_total_keep [simp]:
  "ps_chunks_total (update_progress now p msg pc v t None cc st) = ps_chunks_total p"
  by (simp add: update_progress_def Let_def split: option.splits)

lemma update_progress_total_set [simp]:
  "ps_chunks_total (update_progress now p msg pc v t (Some n) None st) = n"
  by (simp add: update_progress_def Let_def split: option.splits)

lemma update_progress_completed [simp]:
  "ps_chunks_completed (update_progress now p msg pc v t ct (Some c) st) = c"
  by (simp add: update_progress_def Let_def split: option.splits)

lemma update_progress_percentage [simp]:
  "ps_percentage (update_progress now p msg (Some pc) v t None cc st) = pc"
  by (simp add: update_progress_def Let_def split: option.splits)

lemma progress_update_status [simp]:
  "progress_status (progress_update e w msg pc v t ct cc st) =
   update_progress (e_clock e (ticks w)) (progress_status w) msg pc v t ct cc st"
  by (simp add: progress_update_def)

lemma embed_and_store_fields [simp]:
  "VIDEO_INFO_DIR (embed_and_store w chunks name) = VIDEO_INFO_DIR w"
  "progress_status (embed_and_store w chunks name) = progress_status w"
  "ticks (embed_and_store w chunks name) = ticks w"
  by (simp_all add: embed_and_store_def)

lemma process_chunk_total:
  "ps_chunks_total (progress_status (fst (process_chunk U e vid lang cd tc ad acc idx))) =
   ps_chunks_total (progress_status (fst acc))"
  by (cases acc) (simp add: process_chunk_def Let_def split: sum.splits option.splits)

lemma foldl_process_chunk_total:
  "ps_chunks_total (progress_status (fst (foldl (process_chunk U e vid lang cd tc ad) acc idxs))) =
   ps_chunks_total (progress_status (fst acc))"
  by (induction idxs arbitrary: acc) (simp_all add: process_chunk_total)

lemma long_video_finish_info:
  "VIDEO_INFO_DIR (long_video_finish e w ts vid lang n ad) (video_info_file vid) =
     Some \<lparr>vi_title = e_title e, vi_duration = ad,
       vi_language = (if falsy lang
             then (case e_detect e (take 500 (join (py [CHR 10, CHR 10]) ts)) of
                     None \<Rightarrow> Some (py ''en'') | Some l \<Rightarrow> Some l)
             else lang), vi_is_long_video = True,
       vi_chunks_total = n, vi_chunks_completed = n,
       vi_processing_status = Some (py ''complete''), vi_error_message = None\<rparr>"
  by (simp add: long_video_finish_def Let_def)

lemma long_video_finish_transcript:
  "TRANSCRIPT_DIR (long_video_finish e w ts vid lang n ad) (transcript_file vid) =
     Some (join (py [CHR 10, CHR 10]) ts)"
  by (simp add: long_video_finish_def progress_update_def embed_and_store_def Let_def)

lemma long_video_finish_progress:
  "ps_chunks_total (progress_status (long_video_finish e w ts vid lang n ad)) =
     ps_chunks_total (progress_status w)"
  "ps_chunks_completed (progress_status (long_video_finish e w ts vid lang n ad)) = n"
  "ps_percentage (progress_status (long_video_finish e w ts vid lang n ad)) = 100"
  by (simp_all add: long_video_finish_def Let_def)

lemma long_video_start_ok:
  assumes "e_download e" "VIDEO_INFO_DIR w (video_info_file vid) \<noteq> None"
  shows "\<exists>w6. long_video_start e w vid =
           Inr (w6, chunk_duration (e_duration e),
                (if e_audio_duration e (audio_file vid) > 0
                 then chunk_count (e_audio_duration e (audio_file vid)) (chunk_duration (e_duration e))
                 else chunk_count (e_duration e) (chunk_duration (e_duration e))),
                e_audio_duration e (audio_file vid)) \<and>
           ps_chunks_total (progress_status w6) =
             (if e_audio_duration e (audio_file vid) > 0
                 then chunk_count (e_audio_duration e (audio_file vid)) (chunk_duration (e_duration e))
                 else chunk_count (e_duration e) (chunk_duration (e_duration e)))"
  using assms by (auto simp: long_video_start_def Let_def)


lemma process_long_video_ok:
  assumes "e_download e" "VIDEO_INFO_DIR w (video_info_file vid) \<noteq> None"
  defines "n \<equiv> (if e_audio_duration e (audio_file vid) > 0
                 then chunk_count (e_audio_duration e (audio_file vid)) (chunk_duration (e_duration e))
                 else chunk_count (e_duration e) (chunk_duration (e_duration e)))"
  shows "\<exists>info. VIDEO_INFO_DIR (process_long_video U e w vid lang) (video_info_file vid) = Some info \<and>
           vi_chunks_total info = n \<and> vi_chunks_completed info = n \<and>
           vi_processing_status info = Some (py ''complete'')"
    and "ps_chunks_total (progress_status (process_long_video U e w vid lang)) = n"
    and "ps_chunks_completed (progress_status (process_long_video U e w vid lang)) = n"
    and "ps_percentage (progress_status (process_long_video U e w vid lang)) = 100"
proof -
  obtain w6 where st: "long_video_start e w vid =
      Inr (w6, chunk_duration (e_duration e), n, e_audio_duration e (audio_file vid))"
    and tot: "ps_chunks_total (progress_status w6) = n"
    using long_video_start_ok [OF assms(1,2)] unfolding n_def by blast
  obtain w7 ts where fl: "foldl (process_chunk U e vid lang (chunk_duration (e_duration e)) n
            (e_audio_duration e (audio_file vid))) (w6, []) [0..<nat n] = (w7, ts)"
    by (cases "foldl (process_chunk U e vid lang (chunk_duration (e_duration e)) n
            (e_audio_duration e (audio_file vid))) (w6, []) [0..<nat n]") auto
  have w7tot: "ps_chunks_total (progress_status w7) = n"
    using foldl_process_chunk_total [of U e vid lang "chunk_duration (e_duration e)" n
        "e_audio_duration e (audio_file vid)" "(w6, [])" "[0..<nat n]"] fl tot by simp
  have res: "process_long_video U e w vid lang =
      long_video_finish e w7 ts vid lang n (e_audio_duration e (audio_file vid))"
    by (simp add: process_long_video_def long_video_body_def long_video_loop_def st fl)
  show "\<exists>info. VIDEO_INFO_DIR (process_long_video U e w vid lang) (video_info_file vid) = Some info \<and>
           vi_chunks_total info = n \<and> vi_chunks_completed info = n \<and>
           vi_processing_status info = Some (py ''complete'')"
    by (simp add: res long_video_finish_info)
  show "ps_chunks_total (progress_status (process_long_video U e w vid lang)) = n"
    by (simp add: res long_video_finish_progress w7tot)
  show "ps_chunks_completed (progress_status (process_long_video U e w vid lang)) = n"
    by (simp add: res long_video_finish_progress)
  show "ps_percentage (progress_status (process_long_video U e w vid lang)) = 100"
    by (simp add: res long_video_finish_progress)
qed

lemma process_chunked:
  "is_long_video (e_duration e) force \<Longrightarrow>
   fst (process U e w vid lang force) = Processing_started \<and>
   VIDEO_INFO_DIR (snd (process U e w vid lang force)) (video_info_file vid) \<noteq> None"
  by (simp add: process_def Let_def)






text \<open>
  C3, at the fragments \<open>"Hello."\<close> and \<open>"world"\<close>. The earlier fragment ends in a full
  stop, so the two should be joined with a newline. The loop tests the last character
  of the text built so far, which is the newline it has just appended, never a full
  stop: the fragments are joined with a space.
\<close>

theorem C3_space_after_full_stop:
  "transcribe_segments ascii_db (\<lambda>seg. True)
     (\<lambda>seg language. if seg = (0::nat) then Some (py ''Hello.'') else Some (py ''world''))
     (\<lambda>text. None) [0, 1] (Some (py ''en'')) = py ''Hello. world''"
  by (simp add: transcribe_segments_def transcribe_single_segment_def merge_results_def
      clean_newlines_def falsy_def text_eval)

section \<open>The progress tracker\<close>

text \<open>
  The percentage in binary64, at some pairs of integers: \<open>int((29 / 50) * 100)\<close> is 57,
  as 29 / 50 is rounded below 0.58 and the product below 58.
\<close>

lemma float_exponent_unfold:
  "float_exponent fuel a =
     (if fuel = 0 then 0
      else if 2 \<le> a then float_exponent (fuel - 1) (a / 2) + 1
      else if a < 1 then float_exponent (fuel - 1) (a * 2) - 1
      else 0)"
  by (cases fuel) simp_all

lemmas float_eval = percent_complete_def py_truediv_def float_round_def round_half_even_def
  pow2_def py_int_def float_exponent_unfold Let_def

lemma percent_complete_examples:
  "percent_complete 29 50 = 57" "percent_complete 1 5 = 20" "percent_complete 5 5 = 100"
  "percent_complete 57 58 = 98" "percent_complete 14 25 = 56" "percent_complete 58 100 = 57"
  "percent_complete 29 100 = 28" "percent_complete 123456789 1000000007 = 12"
  by (simp_all add: float_eval)

lemma percent_complete_zero: "percent_complete 0 t = 0"
  by (simp add: percent_complete_def py_truediv_def float_round_def py_int_def)

text \<open>
  C6, at the two updates \<open>process_long_video\<close> makes when the audio is downloaded and
  when it starts the second of five chunks. The tracker then knows \<open>chunks_total = 5\<close>
  and \<open>chunks_completed = 1\<close>, and the percentage is still the 15 of the first update,
  not 20: the second update does not pass \<open>chunks_total\<close>.
\<close>

theorem C6_percentage_not_derived:
  "(let p = update_progress 0
       (update_progress 0 initial_progress (py ''Audio downloaded, processing in chunks...'')
          (Some 15) (Some (py ''v'')) None (Some 5) None None)
       (py ''Processing chunk 2/5...'') None (Some (py ''v'')) None None (Some 1) None
    in (ps_chunks_total p, ps_chunks_completed p, ps_percentage p)) = (5, 1, 15)"
  by (simp add: update_progress_def initial_progress_def estimate_remaining_def)

section \<open>The transcript of a time window\<close>

text \<open>
  C9, at a transcript with the markers \<open>[00:00]\<close> and \<open>[30:00]\<close> and the window from
  600 to 660 seconds. No marker lies in \<open>[570, 690]\<close>; the fragment nearest to both
  ends of the window is the one at \<open>[00:00]\<close>. The parser keeps a fragment only when
  its time is positive, so the fragment at \<open>[00:00]\<close> is lost and the one at
  \<open>[30:00]\<close> is returned.
\<close>

theorem C9_first_fragment_lost:
  "extract_transcript_segment ascii_db
     (py ''[00:00] alpha'' @ [10, 10] @ py ''[30:00] beta'') 600 660 3600 = py ''[30:00] beta''"
  by (simp add: extract_transcript_segment_def parse_segments_def parse_line_def
      match_stamp_def take_digits_def int_of_digits_def remove_stamps.simps
      closest_segments_def format_segment_def str_nat.simps str_int02_def text_eval)


section \<open>The chunked mode\<close>

lemma split_audio_chunk_ok: "split_audio ffmpeg ex sz d extracted 60 True \<noteq> Inl err"
  by (simp add: split_audio_def Let_def long_video_detected_def segment_seconds_def)

lemma process_chunk_cut:
  assumes "e_extract_chunk e idx" "VIDEO_INFO_DIR w (video_info_file vid) = Some info"
  shows "VIDEO_INFO_DIR (fst (process_chunk U e vid lang cd tc ad (w, ts) idx))
           (video_info_file vid) = Some (info\<lparr>vi_chunks_completed := int idx + 1\<rparr>)"
    and "ps_chunks_completed (progress_status
           (fst (process_chunk U e vid lang cd tc ad (w, ts) idx))) = int idx + 1"
    and "length (snd (process_chunk U e vid lang cd tc ad (w, ts) idx)) = Suc (length ts)"
  using assms split_audio_chunk_ok
  by (simp_all add: process_chunk_def Let_def split: sum.splits)

lemma process_chunk_no_cut:
  assumes "\<not> e_extract_chunk e idx"
  shows "VIDEO_INFO_DIR (fst (process_chunk U e vid lang cd tc ad (w, ts) idx)) =
           VIDEO_INFO_DIR w"
    and "snd (process_chunk U e vid lang cd tc ad (w, ts) idx) = ts"
  using assms by (simp_all add: process_chunk_def Let_def)

lemma foldl_process_chunk_cut:
  assumes "\<forall>i. e_extract_chunk e i" "VIDEO_INFO_DIR (fst acc) (video_info_file vid) = Some info"
  shows "VIDEO_INFO_DIR (fst (foldl (process_chunk U e vid lang cd tc ad) acc idxs))
           (video_info_file vid) =
         Some (if idxs = [] then info else info\<lparr>vi_chunks_completed := int (last idxs) + 1\<rparr>) \<and>
         length (snd (foldl (process_chunk U e vid lang cd tc ad) acc idxs)) =
           length (snd acc) + length idxs \<and>
         (idxs \<noteq> [] \<longrightarrow>
            ps_chunks_completed (progress_status
              (fst (foldl (process_chunk U e vid lang cd tc ad) acc idxs))) = int (last idxs) + 1)"
proof (induction idxs rule: rev_induct)
  case Nil
  then show ?case using assms(2) by simp
next
  case (snoc x xs)
  obtain w ts where f: "foldl (process_chunk U e vid lang cd tc ad) acc xs = (w, ts)"
    by (cases "foldl (process_chunk U e vid lang cd tc ad) acc xs") auto
  obtain info' where i: "VIDEO_INFO_DIR w (video_info_file vid) = Some info'"
    and i': "info'\<lparr>vi_chunks_completed := int x + 1\<rparr> = info\<lparr>vi_chunks_completed := int x + 1\<rparr>"
    using snoc f by (cases "xs = []") auto
  have x: "e_extract_chunk e x" using assms(1) by simp
  show ?case
    using process_chunk_cut(1) [OF x i, of U lang cd tc ad ts]
      process_chunk_cut(2) [OF x i, of U lang cd tc ad ts]
      process_chunk_cut(3) [OF x i, of U lang cd tc ad ts] snoc f i'
    by simp
qed

lemma foldl_process_chunk_no_cut:
  assumes "\<forall>i. \<not> e_extract_chunk e i"
  shows "VIDEO_INFO_DIR (fst (foldl (process_chunk U e vid lang cd tc ad) acc idxs)) =
           VIDEO_INFO_DIR (fst acc) \<and>
         snd (foldl (process_chunk U e vid lang cd tc ad) acc idxs) = snd acc"
proof (induction idxs rule: rev_induct)
  case Nil
  then show ?case by simp
next
  case (snoc x xs)
  obtain w ts where f: "foldl (process_chunk U e vid lang cd tc ad) acc xs = (w, ts)"
    by (cases "foldl (process_chunk U e vid lang cd tc ad) acc xs") auto
  have x: "\<not> e_extract_chunk e x" using assms by simp
  show ?case
    using process_chunk_no_cut [OF x, of U vid lang cd tc ad w ts] snoc f by simp
qed

lemma long_video_start_record:
  assumes "e_download e" "VIDEO_INFO_DIR w (video_info_file vid) \<noteq> None"
  defines "ad \<equiv> e_audio_duration e (audio_file vid)"
  defines "n \<equiv> (if ad > 0 then chunk_count ad (chunk_duration (e_duration e))
                 else chunk_count (e_duration e) (chunk_duration (e_duration e)))"
  shows "\<exists>w6 info. long_video_start e w vid = Inr (w6, chunk_duration (e_duration e), n, ad) \<and>
           VIDEO_INFO_DIR w6 (video_info_file vid) = Some info \<and>
           vi_chunks_total info = n \<and> vi_chunks_completed info = 0 \<and>
           vi_processing_status info =
             Some (if ad > 0 then py ''transcribing'' else py ''downloading'')"
  using assms(1,2) unfolding n_def ad_def
  by (auto simp: long_video_start_def Let_def)


lemma process_chunk_record_keep:
  assumes "VIDEO_INFO_DIR (fst acc) (video_info_file vid) = Some info"
  shows "\<exists>info'. VIDEO_INFO_DIR (fst (process_chunk U e vid lang cd tc ad acc idx))
                   (video_info_file vid) = Some info' \<and>
                 vi_chunks_total info' = vi_chunks_total info \<and>
                 vi_processing_status info' = vi_processing_status info"
  using assms
  by (cases acc) (auto simp: process_chunk_def Let_def split: sum.splits)

lemma foldl_process_chunk_record_keep:
  assumes "VIDEO_INFO_DIR (fst acc) (video_info_file vid) = Some info"
  shows "\<exists>info'. VIDEO_INFO_DIR (fst (foldl (process_chunk U e vid lang cd tc ad) acc idxs))
                   (video_info_file vid) = Some info' \<and>
                 vi_chunks_total info' = vi_chunks_total info \<and>
                 vi_processing_status info' = vi_processing_status info"
proof (induction idxs rule: rev_induct)
  case Nil
  then show ?case using assms by simp
next
  case (snoc x xs)
  then obtain i where i: "VIDEO_INFO_DIR (fst (foldl (process_chunk U e vid lang cd tc ad) acc xs))
        (video_info_file vid) = Some i"
      "vi_chunks_total i = vi_chunks_total info"
      "vi_processing_status i = vi_processing_status info"
    by blast
  show ?case
    using process_chunk_record_keep [OF i(1), of U e lang cd tc ad x] i(2,3) by auto
qed

lemma chunk_count_pos: "1 \<le> chunk_count d c"
  by (simp add: chunk_count_def)

lemma long_video_loop_record:
  assumes "e_download e" "VIDEO_INFO_DIR w (video_info_file vid) \<noteq> None"
  defines "ad \<equiv> e_audio_duration e (audio_file vid)"
  defines "n \<equiv> (if ad > 0 then chunk_count ad (chunk_duration (e_duration e))
                 else chunk_count (e_duration e) (chunk_duration (e_duration e)))"
  shows "\<exists>w7 ts info. long_video_loop U e w vid lang = Inr (w7, ts, n, ad) \<and>
           process_long_video U e w vid lang = long_video_finish e w7 ts vid lang n ad \<and>
           VIDEO_INFO_DIR w7 (video_info_file vid) = Some info \<and>
           vi_chunks_total info = n \<and>
           vi_processing_status info =
             Some (if ad > 0 then py ''transcribing'' else py ''downloading'') \<and>
           ((\<forall>i. e_extract_chunk e i) \<longrightarrow>
              vi_chunks_completed info = n \<and> length ts = nat n \<and>
              ps_chunks_completed (progress_status w7) = n) \<and>
           ((\<forall>i. \<not> e_extract_chunk e i) \<longrightarrow> vi_chunks_completed info = 0 \<and> ts = [])"
proof -
  let ?cd = "chunk_duration (e_duration e)"
  obtain w6 info6 where st: "long_video_start e w vid = Inr (w6, ?cd, n, ad)"
    and i6: "VIDEO_INFO_DIR w6 (video_info_file vid) = Some info6"
      "vi_chunks_total info6 = n" "vi_chunks_completed info6 = 0"
      "vi_processing_status info6 =
         Some (if ad > 0 then py ''transcribing'' else py ''downloading'')"
    using long_video_start_record [OF assms(1,2)] unfolding n_def ad_def by blast
  let ?f = "foldl (process_chunk U e vid lang ?cd n ad) (w6, []) [0..<nat n]"
  obtain w7 ts where fl: "?f = (w7, ts)" by (cases ?f) auto
  have n1: "1 \<le> n" unfolding n_def using chunk_count_pos by simp
  then have ne: "[0..<nat n] \<noteq> []" and la: "int (last [0..<nat n]) + 1 = n" by auto
  have loop: "long_video_loop U e w vid lang = Inr (w7, ts, n, ad)"
    by (simp add: long_video_loop_def st fl)
  have fin: "process_long_video U e w vid lang = long_video_finish e w7 ts vid lang n ad"
    by (simp add: process_long_video_def long_video_body_def loop)
  show ?thesis
  proof (cases "\<forall>i. e_extract_chunk e i")
    case True
    have some: "\<not> (\<forall>i. \<not> e_extract_chunk e i)" using True by simp
    have "VIDEO_INFO_DIR w7 (video_info_file vid) = Some (info6\<lparr>vi_chunks_completed := n\<rparr>) \<and>
        length ts = nat n \<and> ps_chunks_completed (progress_status w7) = n"
      using foldl_process_chunk_cut [OF True, of "(w6, [])" vid info6 U lang ?cd n ad
          "[0..<nat n]"] i6(1) fl ne la
      by simp
    then show ?thesis using loop fin i6 some True by auto
  next
    case False
    have keep: "VIDEO_INFO_DIR w7 = VIDEO_INFO_DIR w6 \<and> ts = []"
      if "\<forall>i. \<not> e_extract_chunk e i"
      using foldl_process_chunk_no_cut [OF that, of U vid lang ?cd n ad "(w6, [])" "[0..<nat n]"] fl
      by simp
    obtain info7 where i7: "VIDEO_INFO_DIR w7 (video_info_file vid) = Some info7"
        "vi_chunks_total info7 = n"
        "vi_processing_status info7 =
           Some (if ad > 0 then py ''transcribing'' else py ''downloading'')"
      using foldl_process_chunk_record_keep [of "(w6, [])" vid info6 U e lang ?cd n ad
          "[0..<nat n]"] i6 fl
      by auto
    have "(\<forall>i. \<not> e_extract_chunk e i) \<longrightarrow> vi_chunks_completed info7 = 0 \<and> ts = []"
      using keep i6 i7 by auto
    then show ?thesis using loop fin False i7 by auto
  qed
qed

lemma ninety_minutes_loop:
  assumes "e_duration e = 5400" "e_download e"
    and "e_audio_duration e (audio_file video_id) \<le> 0 \<or>
         (4800 < e_audio_duration e (audio_file video_id) \<and>
          e_audio_duration e (audio_file video_id) \<le> 6000)"
  shows "\<exists>w7 all_transcripts info.
           long_video_loop U e (snd (process U e w video_id language False)) video_id language =
             Inr (w7, all_transcripts, 5, e_audio_duration e (audio_file video_id)) \<and>
           snd (process_video U e w video_id language False) =
             long_video_finish e w7 all_transcripts video_id language 5
               (e_audio_duration e (audio_file video_id)) \<and>
           VIDEO_INFO_DIR w7 (video_info_file video_id) = Some info \<and>
           vi_chunks_total info = 5 \<and>
           vi_processing_status info =
             Some (if 0 < e_audio_duration e (audio_file video_id)
                   then py ''transcribing'' else py ''downloading'') \<and>
           ((\<forall>i. e_extract_chunk e i) \<longrightarrow>
              vi_chunks_completed info = 5 \<and> length all_transcripts = 5 \<and>
              ps_chunks_completed (progress_status w7) = 5) \<and>
           ((\<forall>i. \<not> e_extract_chunk e i) \<longrightarrow>
              vi_chunks_completed info = 0 \<and> all_transcripts = [])"
proof -
  have long: "is_long_video (e_duration e) False" using assms(1) by (simp add: is_long_video_def)
  have c0: "chunk_count 5400 1200 = 5" by (rule chunk_count_5) simp_all
  define n where "n = (if e_audio_duration e (audio_file video_id) > 0
       then chunk_count (e_audio_duration e (audio_file video_id)) (chunk_duration (e_duration e))
       else chunk_count (e_duration e) (chunk_duration (e_duration e)))"
  have n5: "n = 5"
    using assms(1,3) c0 chunk_count_5 [of "e_audio_duration e (audio_file video_id)"]
    by (auto simp: n_def chunk_duration_def)
  obtain w1 where p: "process U e w video_id language False = (Processing_started, w1)"
    and info: "VIDEO_INFO_DIR w1 (video_info_file video_id) \<noteq> None"
    using process_chunked [OF long, of U w video_id language]
    by (cases "process U e w video_id language False") auto
  have pv: "snd (process_video U e w video_id language False) =
            process_long_video U e w1 video_id language"
    by (simp add: process_video_def p)
  show ?thesis
    using long_video_loop_record [OF assms(2) info, of U language]
    unfolding n_def [symmetric] n5 pv by (simp add: p)
qed

text \<open>
  C7 as the code has it: a video announced with 5400 seconds and \<open>force_chunked = false\<close>
  is processed in chunked mode with super-chunks of 1200 seconds, 5 of them. When the
  download succeeds and the audio file has a duration that still gives 5 chunks (or none
  that ffprobe can read), the loop over the chunks ends with \<open>chunks_total = 5\<close> in the
  record of the video and a status that is not yet \<open>complete\<close>: \<open>transcribing\<close>, or
  \<open>downloading\<close> when ffprobe gave no duration. When the cut of every chunk succeeds,
  \<open>chunks_completed\<close> is 5 there, in the record and in the tracker, and there are five
  chunk transcripts; when the cut of every chunk fails, \<open>chunks_completed\<close> is still 0
  and there is no chunk transcript. The status \<open>complete\<close> comes with the final record,
  which the job writes after the transcript is saved and indexed, and which sets
  \<open>chunks_completed\<close> to \<open>chunks_total\<close> whatever the loop did: the job ends with
  \<open>chunks_total = 5\<close>, \<open>chunks_completed = 5\<close> and the status \<open>complete\<close> in the record,
  with both counters at 5 in the tracker, and with an empty transcript when every cut
  failed.
\<close>

theorem C7_ninety_minutes:
  assumes "e_duration e = 5400" "e_download e"
    and "e_audio_duration e (audio_file video_id) \<le> 0 \<or>
         (4800 < e_audio_duration e (audio_file video_id) \<and>
          e_audio_duration e (audio_file video_id) \<le> 6000)"
  shows "is_long_video (e_duration e) False \<and>
         chunk_duration (e_duration e) = 1200 \<and>
         chunk_count (e_duration e) (chunk_duration (e_duration e)) = 5 \<and>
         (\<exists>w7 all_transcripts actual_duration info.
            long_video_loop U e (snd (process U e w video_id language False)) video_id language =
              Inr (w7, all_transcripts, 5, actual_duration) \<and>
            VIDEO_INFO_DIR w7 (video_info_file video_id) = Some info \<and>
            vi_chunks_total info = 5 \<and>
            vi_processing_status info =
              Some (if 0 < e_audio_duration e (audio_file video_id)
                    then py ''transcribing'' else py ''downloading'') \<and>
            ((\<forall>i. e_extract_chunk e i) \<longrightarrow>
               vi_chunks_completed info = 5 \<and> length all_transcripts = 5 \<and>
               ps_chunks_completed (progress_status w7) = 5) \<and>
            ((\<forall>i. \<not> e_extract_chunk e i) \<longrightarrow>
               vi_chunks_completed info = 0 \<and> all_transcripts = [])) \<and>
         (case process_video U e w video_id language False of
            (r, w') \<Rightarrow>
              r = Processing_started \<and>
              (\<exists>info. VIDEO_INFO_DIR w' (video_info_file video_id) = Some info \<and>
                      vi_chunks_total info = 5 \<and> vi_chunks_completed info = 5 \<and>
                      vi_processing_status info = Some (py ''complete'')) \<and>
              ps_chunks_total (progress_status w') = 5 \<and>
              ps_chunks_completed (progress_status w') = 5 \<and>
              ps_percentage (progress_status w') = 100 \<and>
              ((\<forall>i. \<not> e_extract_chunk e i) \<longrightarrow>
                 TRANSCRIPT_DIR w' (transcript_file video_id) = Some []))"
proof -
  have long: "is_long_video (e_duration e) False" using assms(1) by (simp add: is_long_video_def)
  have cd: "chunk_duration (e_duration e) = 1200" using assms(1) by (simp add: chunk_duration_def)
  have c0: "chunk_count 5400 1200 = 5" by (rule chunk_count_5) simp_all
  define n where "n = (if e_audio_duration e (audio_file video_id) > 0
       then chunk_count (e_audio_duration e (audio_file video_id)) (chunk_duration (e_duration e))
       else chunk_count (e_duration e) (chunk_duration (e_duration e)))"
  have n5: "n = 5"
    using assms(1,3) c0 chunk_count_5 [of "e_audio_duration e (audio_file video_id)"]
    by (auto simp: n_def chunk_duration_def)
  obtain w1 where p: "process U e w video_id language False = (Processing_started, w1)"
    and info: "VIDEO_INFO_DIR w1 (video_info_file video_id) \<noteq> None"
    using process_chunked [OF long, of U w video_id language]
    by (cases "process U e w video_id language False") auto
  have pv: "process_video U e w video_id language False =
            (Processing_started, process_long_video U e w1 video_id language)"
    by (simp add: process_video_def p)
  obtain w7 ts info7 where loop:
      "long_video_loop U e (snd (process U e w video_id language False)) video_id language =
         Inr (w7, ts, 5, e_audio_duration e (audio_file video_id))"
      "snd (process_video U e w video_id language False) =
         long_video_finish e w7 ts video_id language 5 (e_audio_duration e (audio_file video_id))"
      "VIDEO_INFO_DIR w7 (video_info_file video_id) = Some info7"
      "vi_chunks_total info7 = 5"
      "vi_processing_status info7 =
         Some (if 0 < e_audio_duration e (audio_file video_id)
               then py ''transcribing'' else py ''downloading'')"
      "(\<forall>i. e_extract_chunk e i) \<longrightarrow>
         vi_chunks_completed info7 = 5 \<and> length ts = 5 \<and>
         ps_chunks_completed (progress_status w7) = 5"
      "(\<forall>i. \<not> e_extract_chunk e i) \<longrightarrow> vi_chunks_completed info7 = 0 \<and> ts = []"
    using ninety_minutes_loop [OF assms, of U w language] by blast
  have A: "\<exists>w7 all_transcripts actual_duration info.
            long_video_loop U e (snd (process U e w video_id language False)) video_id language =
              Inr (w7, all_transcripts, 5, actual_duration) \<and>
            VIDEO_INFO_DIR w7 (video_info_file video_id) = Some info \<and>
            vi_chunks_total info = 5 \<and>
            vi_processing_status info =
              Some (if 0 < e_audio_duration e (audio_file video_id)
                    then py ''transcribing'' else py ''downloading'') \<and>
            ((\<forall>i. e_extract_chunk e i) \<longrightarrow>
               vi_chunks_completed info = 5 \<and> length all_transcripts = 5 \<and>
               ps_chunks_completed (progress_status w7) = 5) \<and>
            ((\<forall>i. \<not> e_extract_chunk e i) \<longrightarrow>
               vi_chunks_completed info = 0 \<and> all_transcripts = [])"
    using loop by blast
  have T: "(\<forall>i. \<not> e_extract_chunk e i) \<longrightarrow>
      TRANSCRIPT_DIR (process_long_video U e w1 video_id language) (transcript_file video_id) =
        Some []"
    using loop(2,7) by (auto simp: pv long_video_finish_transcript)
  have B: "(case process_video U e w video_id language False of
            (r, w') \<Rightarrow>
              r = Processing_started \<and>
              (\<exists>info. VIDEO_INFO_DIR w' (video_info_file video_id) = Some info \<and>
                      vi_chunks_total info = 5 \<and> vi_chunks_completed info = 5 \<and>
                      vi_processing_status info = Some (py ''complete'')) \<and>
              ps_chunks_total (progress_status w') = 5 \<and>
              ps_chunks_completed (progress_status w') = 5 \<and>
              ps_percentage (progress_status w') = 100 \<and>
              ((\<forall>i. \<not> e_extract_chunk e i) \<longrightarrow>
                 TRANSCRIPT_DIR w' (transcript_file video_id) = Some []))"
    using process_long_video_ok [OF assms(2) info, of U language] T
    unfolding pv n_def [symmetric] n5 by simp
  show ?thesis
    using long cd c0 assms(1) A B by simp
qed

theorem C7_ninety_minutes_witness:
  "is_long_video (e_duration demo_env) False \<and>
   chunk_duration (e_duration demo_env) = 1200 \<and>
   chunk_count (e_duration demo_env) (chunk_duration (e_duration demo_env)) = 5 \<and>
   (\<forall>i. e_extract_chunk demo_env i) \<and>
   (\<exists>w7 all_transcripts actual_duration info.
      long_video_loop ascii_db demo_env
        (snd (process ascii_db demo_env empty_world (py ''v'') None False)) (py ''v'') None =
        Inr (w7, all_transcripts, 5, actual_duration) \<and>
      VIDEO_INFO_DIR w7 (video_info_file (py ''v'')) = Some info \<and>
      vi_chunks_total info = 5 \<and> vi_chunks_completed info = 5 \<and>
      vi_processing_status info = Some (py ''transcribing'') \<and>
      length all_transcripts = 5 \<and> ps_chunks_completed (progress_status w7) = 5) \<and>
   (case process_video ascii_db demo_env empty_world (py ''v'') None False of
      (r, w') \<Rightarrow>
        r = Processing_started \<and>
        (\<exists>info. VIDEO_INFO_DIR w' (video_info_file (py ''v'')) = Some info \<and>
                vi_chunks_total info = 5 \<and> vi_chunks_completed info = 5 \<and>
                vi_processing_status info = Some (py ''complete'')) \<and>
        ps_chunks_total (progress_status w') = 5 \<and>
        ps_chunks_completed (progress_status w') = 5 \<and>
        ps_percentage (progress_status w') = 100) \<and>
   (\<forall>i. \<not> e_extract_chunk (demo_env\<lparr>e_extract_chunk := \<lambda>i. False\<rparr>) i) \<and>
   (\<exists>w7 actual_duration info.
      long_video_loop ascii_db (demo_env\<lparr>e_extract_chunk := \<lambda>i. False\<rparr>)
        (snd (process ascii_db (demo_env\<lparr>e_extract_chunk := \<lambda>i. False\<rparr>) empty_world
                (py ''v'') None False)) (py ''v'') None =
        Inr (w7, [], 5, actual_duration) \<and>
      VIDEO_INFO_DIR w7 (video_info_file (py ''v'')) = Some info \<and>
      vi_chunks_completed info = 0) \<and>
   (case process_video ascii_db (demo_env\<lparr>e_extract_chunk := \<lambda>i. False\<rparr>) empty_world
           (py ''v'') None False of
      (r, w') \<Rightarrow>
        (\<exists>info. VIDEO_INFO_DIR w' (video_info_file (py ''v'')) = Some info \<and>
                vi_chunks_total info = 5 \<and> vi_chunks_completed info = 5 \<and>
                vi_processing_status info = Some (py ''complete'')) \<and>
        TRANSCRIPT_DIR w' (transcript_file (py ''v'')) = Some [])"
proof -
  let ?e = "demo_env\<lparr>e_extract_chunk := \<lambda>i. False\<rparr>"
  have h: "e_duration demo_env = 5400" "e_download demo_env"
    "e_audio_duration demo_env (audio_file (py ''v'')) \<le> 0 \<or>
     (4800 < e_audio_duration demo_env (audio_file (py ''v'')) \<and>
      e_audio_duration demo_env (audio_file (py ''v'')) \<le> 6000)"
    by (simp_all add: demo_env_def audio_file_def py_def)
  have h': "e_duration ?e = 5400" "e_download ?e"
    "e_audio_duration ?e (audio_file (py ''v'')) \<le> 0 \<or>
     (4800 < e_audio_duration ?e (audio_file (py ''v'')) \<and>
      e_audio_duration ?e (audio_file (py ''v'')) \<le> 6000)"
    by (simp_all add: demo_env_def audio_file_def py_def)
  have c: "\<forall>i. e_extract_chunk demo_env i" "\<forall>i. \<not> e_extract_chunk ?e i"
    "0 < e_audio_duration demo_env (audio_file (py ''v''))"
    by (simp_all add: demo_env_def audio_file_def py_def)
  show ?thesis
    using C7_ninety_minutes [OF h, of ascii_db empty_world None]
      C7_ninety_minutes [OF h', of ascii_db empty_world None] c
    by (auto split: prod.splits)
qed

text \<open>
  C7 as stated fails: in the surroundings \<open>demo_env\<close>, where every step succeeds, the
  record of the video after the fifth chunk holds \<open>chunks_completed = 5\<close> with the status
  \<open>transcribing\<close>, not \<open>complete\<close>.
\<close>

theorem C7_five_chunks_not_complete:
  "(case long_video_loop ascii_db demo_env
           (snd (process ascii_db demo_env empty_world (py ''v'') None False)) (py ''v'') None of
      Inl exn \<Rightarrow> None
    | Inr (w7, all_transcripts, total_chunks, actual_duration) \<Rightarrow>
        map_option (\<lambda>info. (vi_chunks_total info, vi_chunks_completed info,
                            vi_processing_status info, ps_chunks_completed (progress_status w7),
                            length all_transcripts))
          (VIDEO_INFO_DIR w7 (video_info_file (py ''v'')))) =
   Some (5, 5, Some (py ''transcribing''), 5, 5) \<and>
   py ''transcribing'' \<noteq> py ''complete''"
proof -
  have h: "e_duration demo_env = 5400" "e_download demo_env"
    "e_audio_duration demo_env (audio_file (py ''v'')) \<le> 0 \<or>
     (4800 < e_audio_duration demo_env (audio_file (py ''v'')) \<and>
      e_audio_duration demo_env (audio_file (py ''v'')) \<le> 6000)"
    by (simp_all add: demo_env_def audio_file_def py_def)
  have c: "\<forall>i. e_extract_chunk demo_env i"
    "0 < e_audio_duration demo_env (audio_file (py ''v''))"
    by (simp_all add: demo_env_def audio_file_def py_def)
  have "py ''transcribing'' \<noteq> py ''complete''" by (simp add: py_def)
  then show ?thesis
    using ninety_minutes_loop [OF h, of ascii_db empty_world None] c by auto
qed

section \<open>The plan of the segments\<close>

lemma concat_batches: "0 < n \<Longrightarrow> concat (map (filter P) (batches n xs)) = filter P xs"
proof (induction n xs rule: batches.induct)
  case (1 n xs)
  show ?case
  proof (cases "xs = []")
    case True
    then show ?thesis by (simp add: batches.simps)
  next
    case False
    have "concat (map (filter P) (batches n (drop n xs))) = filter P (drop n xs)"
      using "1.IH" "1.prems" False by simp
    moreover have "filter P (take n xs) @ filter P (drop n xs) = filter P xs"
      by (metis append_take_drop_id filter_append)
    ultimately show ?thesis
      using False "1.prems" by (subst batches.simps) simp
  qed
qed

lemma split_audio_exact:
  assumes "0 < d" "segment_seconds (long_video_detected long sz) d ms = m" "m \<noteq> 0"
  shows "split_audio ffmpeg ex sz d extracted ms long =
     Inr (if ffmpeg \<and> ex then filter (\<lambda>s. extracted (seg_index s)) (planned_segments d m)
          else [])"
  using assms by (simp add: split_audio_def Let_def concat_batches)

lemma count_floor:
  assumes "0 < m" "of_int m \<le> d"
  shows "segments_count d m = \<lfloor>d / of_int m\<rfloor>" "1 \<le> \<lfloor>d / of_int m\<rfloor>"
proof -
  have "1 \<le> d / of_int m" using assms by (simp add: le_divide_eq)
  then show b: "1 \<le> \<lfloor>d / of_int m\<rfloor>" by (simp add: le_floor_iff)
  have "0 \<le> d / of_int m" using \<open>1 \<le> d / of_int m\<close> by linarith
  then show "segments_count d m = \<lfloor>d / of_int m\<rfloor>"
    using b by (simp add: segments_count_def py_int_def)
qed


text \<open>
  C10: for a duration \<open>d\<close> and a segment length \<open>m\<close> (the length \<open>split_audio\<close> works
  with, after line 74) with \<open>0 < m \<le> d\<close>, the plan has \<open>max 1 \<lfloor>d / m\<rfloor>\<close> segments, the
  segment \<open>i\<close> starts at \<open>i * m\<close> and is \<open>m\<close> long, and \<open>split_audio\<close> returns the
  segments of the plan that ffmpeg wrote, in the order of the plan: the whole plan when
  every segment is written, nothing when ffmpeg or the input file is missing. When \<open>d\<close> is no multiple of \<open>m\<close>, the segments end at or before
  \<open>n * m < d\<close>, for \<open>n\<close> the number of segments, and the tail from there to \<open>d\<close> is
  shorter than \<open>m\<close>: it lies in no segment.
\<close>

theorem C10_segment_plan:
  assumes "0 < m" "of_int m \<le> d"
  shows "length (planned_segments d m) = nat (max 1 \<lfloor>d / of_int m\<rfloor>) \<and>
         (\<forall>i < length (planned_segments d m).
            planned_segments d m ! i =
              \<lparr>seg_index = i, seg_start = int i * m, seg_length = m\<rparr>) \<and>
         (\<forall>ffmpeg ex sz extracted ms long.
            segment_seconds (long_video_detected long sz) d ms = m \<longrightarrow>
            split_audio ffmpeg ex sz d extracted ms long =
              Inr (if ffmpeg \<and> ex
                   then filter (\<lambda>s. extracted (seg_index s)) (planned_segments d m)
                   else [])) \<and>
         (\<forall>sz ms long.
            segment_seconds (long_video_detected long sz) d ms = m \<longrightarrow>
            split_audio True True sz d (\<lambda>i. True) ms long = Inr (planned_segments d m)) \<and>
         ((\<forall>k::int. d \<noteq> of_int (k * m)) \<longrightarrow>
            of_int (int (length (planned_segments d m)) * m) < d \<and>
            d - of_int (int (length (planned_segments d m)) * m) < of_int m \<and>
            (\<forall>s \<in> set (planned_segments d m).
               seg_start s + seg_length s \<le> int (length (planned_segments d m)) * m))"
proof -
  let ?n = "\<lfloor>d / of_int m\<rfloor>"
  have cnt: "segments_count d m = ?n" and n1: "1 \<le> ?n" using count_floor [OF assms] by auto
  have len: "length (planned_segments d m) = nat ?n"
    by (simp add: planned_segments_def cnt)
  have mpos: "(0::real) < of_int m" using assms by simp
  have A: "length (planned_segments d m) = nat (max 1 ?n)" using len n1 by simp
  have B: "\<forall>i < length (planned_segments d m).
            planned_segments d m ! i = \<lparr>seg_index = i, seg_start = int i * m, seg_length = m\<rparr>"
    by (simp add: planned_segments_def process_segment_def)
  have dpos: "0 < d" and m0: "m \<noteq> 0" using assms by simp_all
  have C: "\<forall>ffmpeg ex sz extracted ms long.
            segment_seconds (long_video_detected long sz) d ms = m \<longrightarrow>
            split_audio ffmpeg ex sz d extracted ms long =
              Inr (if ffmpeg \<and> ex
                   then filter (\<lambda>s. extracted (seg_index s)) (planned_segments d m)
                   else [])"
    using split_audio_exact [OF dpos _ m0] by blast
  have C': "\<forall>sz ms long.
            segment_seconds (long_video_detected long sz) d ms = m \<longrightarrow>
            split_audio True True sz d (\<lambda>i. True) ms long = Inr (planned_segments d m)"
    using split_audio_exact [OF dpos _ m0, of _ _ _ True True "\<lambda>i. True"] by simp
  have lenm: "int (length (planned_segments d m)) * m = ?n * m" using len n1 by simp
  have le: "of_int (?n * m) \<le> d"
  proof -
    have "of_int ?n \<le> d / of_int m" by simp
    then have "of_int ?n * of_int m \<le> d" using mpos by (simp add: le_divide_eq)
    then show ?thesis by simp
  qed
  have lt: "d < of_int (?n * m) + of_int m"
  proof -
    have "d / of_int m < of_int ?n + 1" by linarith
    then have "d < (of_int ?n + 1) * of_int m" using mpos pos_divide_less_eq by blast
    then show ?thesis by (simp add: algebra_simps)
  qed
  have D1: "(\<forall>k::int. d \<noteq> of_int (k * m)) \<longrightarrow> of_int (?n * m) < d"
    using le by (metis less_eq_real_def)
  have D3: "\<forall>s \<in> set (planned_segments d m). seg_start s + seg_length s \<le> ?n * m"
  proof
    fix s assume "s \<in> set (planned_segments d m)"
    then obtain i where i: "i < nat ?n" and s: "s = process_segment m i"
      by (auto simp: planned_segments_def cnt)
    have "int i + 1 \<le> ?n" using i by linarith
    then have "(int i + 1) * m \<le> ?n * m" using assms(1) by (simp add: mult_right_mono)
    then show "seg_start s + seg_length s \<le> ?n * m"
      by (simp add: s process_segment_def algebra_simps)
  qed
  have D: "(\<forall>k::int. d \<noteq> of_int (k * m)) \<longrightarrow>
            of_int (?n * m) < d \<and> d - of_int (?n * m) < of_int m \<and>
            (\<forall>s \<in> set (planned_segments d m). seg_start s + seg_length s \<le> ?n * m)"
  proof (intro impI conjI)
    assume "\<forall>k::int. d \<noteq> of_int (k * m)"
    then show "of_int (?n * m) < d" using D1 by blast
    show "d - of_int (?n * m) < of_int m" using lt by linarith
    show "\<forall>s \<in> set (planned_segments d m). seg_start s + seg_length s \<le> ?n * m"
      using D3 .
  qed
  show ?thesis unfolding lenm using A B C C' D by blast
qed

theorem C10_segment_plan_witness:
  "length (planned_segments 130 60) = 2 \<and>
   planned_segments 130 60 ! 1 = \<lparr>seg_index = 1, seg_start = 60, seg_length = 60\<rparr> \<and>
   split_audio True True 1000 130 (\<lambda>i. True) 60 False = Inr (planned_segments 130 60) \<and>
   split_audio True True 1000 130 (\<lambda>i. i \<noteq> 0) 60 False =
     Inr [\<lparr>seg_index = 1, seg_start = 60, seg_length = 60\<rparr>] \<and>
   (120::real) < 130 \<and> (130::real) - 120 < 60"
proof -
  have h: "(0::int) < 60" "of_int (60::int) \<le> (130::real)" by simp_all
  have nm: "\<forall>k::int. (130::real) \<noteq> of_int (k * 60)"
  proof
    fix k :: int
    show "(130::real) \<noteq> of_int (k * 60)"
    proof
      assume "(130::real) = of_int (k * 60)"
      then have "(130::int) = k * 60" by linarith
      then show False by presburger
    qed
  qed
  have ss: "segment_seconds (long_video_detected False 1000) 130 60 = 60"
    by (simp add: segment_seconds_def long_video_detected_def)
  have pl: "planned_segments 130 60 =
      [\<lparr>seg_index = 0, seg_start = 0, seg_length = 60\<rparr>,
       \<lparr>seg_index = 1, seg_start = 60, seg_length = 60\<rparr>]"
    by (simp add: planned_segments_def segments_count_def py_int_def process_segment_def
        upt_rec)
  show ?thesis using C10_segment_plan [OF h] nm ss by (simp add: pl)
qed

section \<open>What answering a question leaves in place\<close>

lemma get_conversation_history_fields [simp]:
  "VIDEO_INFO_DIR (snd (get_conversation_history e w s vid)) = VIDEO_INFO_DIR w"
  "TRANSCRIPT_DIR (snd (get_conversation_history e w s vid)) = TRANSCRIPT_DIR w"
  "CACHE_DIR (snd (get_conversation_history e w s vid)) = CACHE_DIR w"
  "CHROMA_DIR (snd (get_conversation_history e w s vid)) = CHROMA_DIR w"
  "memory_cache (snd (get_conversation_history e w s vid)) = memory_cache w"
  "chat_log (snd (get_conversation_history e w s vid)) = chat_log w"
  by (simp_all add: get_conversation_history_def Let_def split: option.splits)

lemma append_turn_fields [simp]:
  "VIDEO_INFO_DIR (append_turn w s t) = VIDEO_INFO_DIR w"
  "TRANSCRIPT_DIR (append_turn w s t) = TRANSCRIPT_DIR w"
  "CACHE_DIR (append_turn w s t) = CACHE_DIR w"
  "CHROMA_DIR (append_turn w s t) = CHROMA_DIR w"
  "memory_cache (append_turn w s t) = memory_cache w"
  "chat_log (append_turn w s t) = chat_log w"
  by (simp_all add: append_turn_def Let_def)

lemma get_cached_answer_fields [simp]:
  "VIDEO_INFO_DIR (snd (get_cached_answer w k vid)) = VIDEO_INFO_DIR w"
  "TRANSCRIPT_DIR (snd (get_cached_answer w k vid)) = TRANSCRIPT_DIR w"
  "CACHE_DIR (snd (get_cached_answer w k vid)) = CACHE_DIR w"
  "CHROMA_DIR (snd (get_cached_answer w k vid)) = CHROMA_DIR w"
  "chat_log (snd (get_cached_answer w k vid)) = chat_log w"
  by (simp_all add: get_cached_answer_def Let_def split: option.splits)

lemma save_to_cache_fields [simp]:
  "VIDEO_INFO_DIR (save_to_cache w k a vid) = VIDEO_INFO_DIR w"
  "TRANSCRIPT_DIR (save_to_cache w k a vid) = TRANSCRIPT_DIR w"
  "CHROMA_DIR (save_to_cache w k a vid) = CHROMA_DIR w"
  "chat_log (save_to_cache w k a vid) = chat_log w"
  "f \<noteq> cache_file vid \<Longrightarrow> CACHE_DIR (save_to_cache w k a vid) f = CACHE_DIR w f"
  by (simp_all add: save_to_cache_def)

lemma summarize_transcript_fields [simp]:
  "VIDEO_INFO_DIR (snd (summarize_transcript U e w t l)) = VIDEO_INFO_DIR w"
  "TRANSCRIPT_DIR (snd (summarize_transcript U e w t l)) = TRANSCRIPT_DIR w"
  "CACHE_DIR (snd (summarize_transcript U e w t l)) = CACHE_DIR w"
  by (simp_all add: summarize_transcript_def)

lemma segments_file_neq [simp]: "segments_cache_file vid \<noteq> cache_file vid"
  by (simp add: segments_cache_file_def cache_file_def py_def)

lemma chat_answer_fields [simp]:
  "VIDEO_INFO_DIR (snd (chat_answer U e w q t vid l ag h k c)) = VIDEO_INFO_DIR w"
  "TRANSCRIPT_DIR (snd (chat_answer U e w q t vid l ag h k c)) = TRANSCRIPT_DIR w"
  "CHROMA_DIR (snd (chat_answer U e w q t vid l ag h k c)) = CHROMA_DIR w"
  "f \<noteq> cache_file vid \<Longrightarrow> CACHE_DIR (snd (chat_answer U e w q t vid l ag h k c)) f = CACHE_DIR w f"
  by (auto simp: chat_answer_def Let_def split: option.splits)

lemma ask_question_fields:
  assumes "ask_question U e w q t vid l ag h title = Inr r"
  shows "VIDEO_INFO_DIR (snd r) = VIDEO_INFO_DIR w \<and> TRANSCRIPT_DIR (snd r) = TRANSCRIPT_DIR w \<and>
         CACHE_DIR (snd r) (segments_cache_file vid) = CACHE_DIR w (segments_cache_file vid)"
  using assms
  by (auto simp: ask_question_def Let_def split: if_splits option.splits)

section \<open>Answers from the cache\<close>

lemma ask_reached:
  assumes "fst (ask U e w vid req) = Reply a (Some c)"
  shows "\<exists>info t. reached w vid req info t"
  using assms
  by (auto simp: ask_def reached_def Let_def split: option.splits if_splits)

lemma ask_when_reached:
  assumes "reached w vid req info t"
  shows "ask U e w vid req =
     (if r_start_time req \<noteq> None \<or> r_end_time req \<noteq> None
      then ask_time_window U e (snd (get_conversation_history e w (r_session_id req) vid)) vid req
             info t (fst (get_conversation_history e w (r_session_id req) vid))
             (ask_followup U e w vid req)
      else ask_transcript U e (snd (get_conversation_history e w (r_session_id req) vid)) vid req
             info t (fst (get_conversation_history e w (r_session_id req) vid))
             (ask_followup U e w vid req))"
  using assms
  by (auto simp: ask_def reached_def ask_followup_def Let_def split: prod.splits)

lemma ask_transcript_hit:
  assumes "q_hash U (r_query req) (r_language req) False = Some k"
    "CACHE_DIR w (cache_file vid) = Some d" "d k = Some a" "a \<noteq> []"
  shows "ask_transcript U e w vid req info t sid False = finish w sid (r_query req) a True"
  using assms by (simp add: ask_transcript_def truthy_def Let_def)

lemma ask_time_window_hit:
  assumes "time_segment_hash (r_query req) (r_language req) (r_start_time req) (r_end_time req)
             = Some k"
    "CACHE_DIR w (segments_cache_file vid) = Some d" "d k = Some a" "a \<noteq> []"
  shows "ask_time_window U e w vid req info t sid f = finish w sid (r_query req) a True"
  using assms by (simp add: ask_time_window_def truthy_def Let_def)

lemma ask_transcript_miss:
  assumes "ask_transcript U e w vid req info t sid False = (Reply a (Some False), s, w')"
  shows "\<exists>k d. q_hash U (r_query req) (r_language req) False = Some k \<and>
           CACHE_DIR w' (cache_file vid) = Some d \<and> d k = Some a \<and>
           VIDEO_INFO_DIR w' = VIDEO_INFO_DIR w \<and> TRANSCRIPT_DIR w' = TRANSCRIPT_DIR w"
proof -
  obtain k where k: "q_hash U (r_query req) (r_language req) False = Some k"
    using assms by (cases "q_hash U (r_query req) (r_language req) False")
      (simp_all add: ask_transcript_def Let_def)
  define cached where "cached = (case CACHE_DIR w (cache_file vid) of None \<Rightarrow> None | Some d \<Rightarrow> d k)"
  have miss: "\<not> truthy cached"
    using assms k
    by (auto simp: ask_transcript_def Let_def finish_def cached_def split: option.splits)
  obtain r where r: "ask_question U e w (r_query req) t vid (r_language req) (r_use_agent req)
      None (Some (vi_title info)) = Inr r"
    using assms k miss
    by (cases "ask_question U e w (r_query req) t vid (r_language req) (r_use_agent req)
      None (Some (vi_title info))")
      (auto simp: ask_transcript_def Let_def cached_def split: option.splits)
  define a' where "a' = (if r_language req = py ''ar'' \<and> r_use_agent req
                         then strip_final_answer U (fst r) else fst r)"
  define w2 where "w2 = (snd r)\<lparr>CACHE_DIR := (CACHE_DIR (snd r))(cache_file vid \<mapsto>
       (case CACHE_DIR (snd r) (cache_file vid) of None \<Rightarrow> Map.empty | Some d \<Rightarrow> d)(k \<mapsto> a'))\<rparr>"
  have res: "ask_transcript U e w vid req info t sid False = finish w2 sid (r_query req) a' False"
    using k miss r
    by (cases r) (auto simp: ask_transcript_def Let_def cached_def a'_def w2_def
        split: option.splits)
  have eq: "a = a'" "w' = append_turn w2 sid (r_query req, a')"
    using assms res by (auto simp: finish_def)
  have "CACHE_DIR w' (cache_file vid) =
        Some ((case CACHE_DIR (snd r) (cache_file vid) of None \<Rightarrow> Map.empty | Some d \<Rightarrow> d)(k \<mapsto> a'))"
    by (simp add: eq w2_def)
  moreover have "VIDEO_INFO_DIR w' = VIDEO_INFO_DIR w" "TRANSCRIPT_DIR w' = TRANSCRIPT_DIR w"
    using ask_question_fields [OF r] by (simp_all add: eq w2_def)
  ultimately show ?thesis using k eq by auto
qed

lemma ask_time_window_miss:
  assumes "ask_time_window U e w vid req info t sid f = (Reply a (Some False), s, w')"
  shows "\<exists>k d. time_segment_hash (r_query req) (r_language req) (r_start_time req)
                 (r_end_time req) = Some k \<and>
           CACHE_DIR w' (segments_cache_file vid) = Some d \<and> d k = Some a \<and>
           VIDEO_INFO_DIR w' = VIDEO_INFO_DIR w \<and> TRANSCRIPT_DIR w' = TRANSCRIPT_DIR w"
proof -
  let ?h = "time_segment_hash (r_query req) (r_language req) (r_start_time req) (r_end_time req)"
  obtain k where k: "?h = Some k"
    using assms by (cases ?h) (simp_all add: ask_time_window_def Let_def)
  define cached where
    "cached = (case CACHE_DIR w (segments_cache_file vid) of None \<Rightarrow> None | Some d \<Rightarrow> d k)"
  have miss: "\<not> truthy cached"
    using assms k
    by (auto simp: ask_time_window_def Let_def finish_def cached_def split: option.splits)
  define st where "st = extract_transcript_segment U t
      (case r_start_time req of None \<Rightarrow> 0 | Some v \<Rightarrow> of_int v)
      (case r_end_time req of None \<Rightarrow> vi_duration info
        | Some v \<Rightarrow> if v = 0 then vi_duration info else of_int v) (vi_duration info)"
  let ?q = "ask_question U e w (r_query req) st vid (r_language req) (r_use_agent req)
      (if f then Some (history_of w sid) else None) (Some (vi_title info))"
  obtain r where r: "?q = Inr r"
    using assms k miss
    by (cases ?q) (auto simp: ask_time_window_def Let_def cached_def st_def split: option.splits)
  obtain a' w2 where res: "ask_time_window U e w vid req info t sid f =
        finish w2 sid (r_query req) a' False"
    and w2: "CACHE_DIR w2 (segments_cache_file vid) =
        Some ((case CACHE_DIR (snd r) (segments_cache_file vid) of None \<Rightarrow> Map.empty | Some d \<Rightarrow> d)
              (k \<mapsto> a'))"
       "VIDEO_INFO_DIR w2 = VIDEO_INFO_DIR (snd r)" "TRANSCRIPT_DIR w2 = TRANSCRIPT_DIR (snd r)"
    using k miss r
    by (cases r) (auto simp: ask_time_window_def Let_def cached_def st_def split: option.splits)
  have eq: "a = a'" "w' = append_turn w2 sid (r_query req, a')"
    using assms res by (auto simp: finish_def)
  show ?thesis using k eq w2 ask_question_fields [OF r] by auto
qed

text \<open>
  The classification of the example question, its fingerprints, and the first answer
  to it in the state \<open>ready_world\<close>.
\<close>

lemmas class_eval = is_followup_question_def is_video_related_question_def is_summary_request_def
  search_word_def search_start_def boundary_def word_at_def match_at_def
  video_indicators_def casual_indicators_def exceptions_def summary_terms_def startswith_def

lemma demo_question_facts:
  "demo_question \<noteq> []"
  "\<not> is_followup_question ascii_db demo_question"
  "is_video_related_question ascii_db demo_question title"
  "\<not> is_summary_request ascii_db demo_question"
  by (simp_all add: demo_question_def class_eval text_eval)

lemma demo_keys:
  "qa_hash ascii_db demo_question (py ''en'') False = Some demo_qa_key"
  "time_segment_hash demo_question (py ''en'') (Some 600) (Some 1200) = Some demo_window_key"
  "q_hash ascii_db demo_question (py ''en'') False = Some demo_key"
  "q_hash ascii_db demo_question (py ''en'') True = Some demo_followup_key"
  by (simp_all add: demo_qa_key_def demo_window_key_def demo_key_def demo_followup_key_def qa_hash_def q_hash_def question_text_def window_text_def
      time_segment_hash_def clean_q_def demo_question_def demo_question_facts [unfolded demo_question_def]
      str_bool_def str_opt_def str_int_def str_nat.simps utf8_char_def text_eval)


lemma ascii_db_sel:
  "u_islower ascii_db = ascii_islower" "u_isspace ascii_db = ascii_isspace"
  "u_isword ascii_db = ascii_isword" "u_decimal ascii_db = ascii_decimal"
  "u_lower ascii_db = ascii_lower" "u_caseless ascii_db = ascii_caseless"
  by (simp_all add: ascii_db_def)

lemmas db_eval = py_def ascii_db_sel ascii_islower_def ascii_isspace_def ascii_isword_def
  ascii_decimal_def ascii_lower_def ascii_caseless_def rstrip_def lstrip_def strip_def

lemmas demo_facts = demo_question_facts [unfolded py_def, simplified] demo_keys [unfolded py_def, simplified]

lemmas ask_eval = ask_def ask_transcript_def ask_time_window_def ask_question_def chat_answer_def
  classify_followup_def get_conversation_history_def history_of_def append_turn_def finish_def
  get_cached_answer_def save_to_cache_def generate_prompt_def retrieve_relevant_context_def
  truthy_def video_info_file_def transcript_file_def cache_file_def
  segments_cache_file_def collection_name_def
  ready_world_def empty_world_def cached_world_def stale_world_def demo_env_def blank_env_def
  demo_request_def followup_request_def window_request_def
  demo_facts Let_def

lemma demo_first:
  "fst (ask ascii_db demo_env ready_world (py ''v'') demo_request) =
     Reply (py ''An answer.'') (Some False)"
  by (simp add: ask_eval db_eval contains.simps)

text \<open>
  C5 as the code has it: a request that was answered by the chat completion with a
  non-empty answer, asked again with the same question, language, mode and time window
  in the state the first answer left, both times as a direct question, is answered with
  the same text and the flag of a cache hit, and the chat completion is not called
  again. The answer has to be non-empty: the lookup tests the truth value of the cached
  text (\<open>if cached:\<close>, lines 625 and 695), so an empty answer in the cache is a miss.
\<close>

theorem C5_cache_round_trip:
  assumes first: "ask U e w video_id req = (Reply a (Some False), sid, w1)"
    and nonempty: "a \<noteq> []"
    and same: "r_query req' = r_query req" "r_language req' = r_language req"
      "r_use_agent req' = r_use_agent req" "r_start_time req' = r_start_time req"
      "r_end_time req' = r_end_time req"
    and direct: "\<not> ask_followup U e w video_id req" "\<not> ask_followup U e w1 video_id req'"
  shows "fst (ask U e w1 video_id req') = Reply a (Some True) \<and>
         chat_log (snd (snd (ask U e w1 video_id req'))) = chat_log w1"
proof -
  obtain info t where re: "reached w video_id req info t"
    using ask_reached [of U e w video_id req a False] first by auto
  let ?g = "get_conversation_history e w (r_session_id req) video_id"
  let ?g' = "get_conversation_history e w1 (r_session_id req') video_id"
  have "\<exists>k d. (if r_start_time req \<noteq> None \<or> r_end_time req \<noteq> None
               then time_segment_hash (r_query req) (r_language req) (r_start_time req)
                      (r_end_time req) = Some k \<and>
                    CACHE_DIR w1 (segments_cache_file video_id) = Some d
               else q_hash U (r_query req) (r_language req) False = Some k \<and>
                    CACHE_DIR w1 (cache_file video_id) = Some d) \<and>
              d k = Some a \<and> VIDEO_INFO_DIR w1 = VIDEO_INFO_DIR w \<and>
              TRANSCRIPT_DIR w1 = TRANSCRIPT_DIR w"
  proof (cases "r_start_time req \<noteq> None \<or> r_end_time req \<noteq> None")
    case True
    then have "ask_time_window U e (snd ?g) video_id req info t (fst ?g) False =
        (Reply a (Some False), sid, w1)"
      using first direct(1) by (simp add: ask_when_reached [OF re])
    from ask_time_window_miss [OF this] True show ?thesis by auto
  next
    case False
    then have "ask_transcript U e (snd ?g) video_id req info t (fst ?g) False =
        (Reply a (Some False), sid, w1)"
      using first direct(1) by (simp add: ask_when_reached [OF re])
    from ask_transcript_miss [OF this] False show ?thesis by auto
  qed
  then obtain k d where kd:
      "if r_start_time req \<noteq> None \<or> r_end_time req \<noteq> None
       then time_segment_hash (r_query req) (r_language req) (r_start_time req)
              (r_end_time req) = Some k \<and>
            CACHE_DIR w1 (segments_cache_file video_id) = Some d
       else q_hash U (r_query req) (r_language req) False = Some k \<and>
            CACHE_DIR w1 (cache_file video_id) = Some d"
    and dk: "d k = Some a"
    and dirs: "VIDEO_INFO_DIR w1 = VIDEO_INFO_DIR w" "TRANSCRIPT_DIR w1 = TRANSCRIPT_DIR w"
    by blast
  have re': "reached w1 video_id req' info t"
    using re same dirs by (simp add: reached_def)
  have "ask U e w1 video_id req' = finish (snd ?g') (fst ?g') (r_query req) a True"
  proof (cases "r_start_time req \<noteq> None \<or> r_end_time req \<noteq> None")
    case True
    then show ?thesis
      using kd dk nonempty same direct(2)
        ask_time_window_hit [of req' k "snd ?g'" video_id d a U e info t "fst ?g'" False]
      by (simp add: ask_when_reached [OF re'])
  next
    case False
    then show ?thesis
      using kd dk nonempty same direct(2)
        ask_transcript_hit [of U req' k "snd ?g'" video_id d a e info t "fst ?g'"]
      by (simp add: ask_when_reached [OF re'])
  qed
  then show ?thesis by (simp add: finish_def)
qed

theorem C5_cache_round_trip_witness:
  "fst (ask ascii_db demo_env ready_world (py ''v'') demo_request) =
     Reply (py ''An answer.'') (Some False) \<and>
   py ''An answer.'' \<noteq> [] \<and>
   \<not> ask_followup ascii_db demo_env ready_world (py ''v'') demo_request \<and>
   \<not> ask_followup ascii_db demo_env
       (snd (snd (ask ascii_db demo_env ready_world (py ''v'') demo_request)))
       (py ''v'') demo_request \<and>
   fst (ask ascii_db demo_env
          (snd (snd (ask ascii_db demo_env ready_world (py ''v'') demo_request)))
          (py ''v'') demo_request) = Reply (py ''An answer.'') (Some True) \<and>
   chat_log (snd (snd (ask ascii_db demo_env
          (snd (snd (ask ascii_db demo_env ready_world (py ''v'') demo_request)))
          (py ''v'') demo_request))) =
   chat_log (snd (snd (ask ascii_db demo_env ready_world (py ''v'') demo_request)))"
proof -
  let ?r = "ask ascii_db demo_env ready_world (py ''v'') demo_request"
  have first: "?r = (Reply (py ''An answer.'') (Some False), fst (snd ?r), snd (snd ?r))"
    using demo_first by (simp add: prod_eq_iff)
  have ne: "py ''An answer.'' \<noteq> []"
    by (simp add: py_def)
  have direct: "\<not> ask_followup ascii_db demo_env w (py ''v'') demo_request" for w
    by (simp add: ask_followup_def classify_followup_def demo_request_def split: prod.splits)
  show ?thesis
    using C5_cache_round_trip [OF first ne refl refl refl refl refl direct direct]
      demo_first ne direct
    by simp
qed

text \<open>
  C5 as stated fails for an empty answer: the chat completion returns a blank, which
  \<open>ask_question\<close> strips to the empty string (line 599); it is cached under the
  fingerprint, and the same request asked again calls the chat completion a second
  time and is answered without the flag of a cache hit.
\<close>

theorem C5_blank_answer_asked_twice:
  "(let r1 = ask ascii_db blank_env ready_world (py ''v'') demo_request;
        r2 = ask ascii_db blank_env (snd (snd r1)) (py ''v'') demo_request
    in (fst r1, length (chat_log (snd (snd r1))),
        case CACHE_DIR (snd (snd r1)) (cache_file (py ''v'')) of
          None \<Rightarrow> None | Some d \<Rightarrow> d demo_key,
        fst r2, length (chat_log (snd (snd r2))))) =
   (Reply [] (Some False), 1, Some [], Reply [] (Some False), 2)"
  by (simp add: ask_eval db_eval contains.simps)

section \<open>Follow-up questions\<close>

lemma encode_append:
  "encode (a @ b) = (case encode a of None \<Rightarrow> None
     | Some x \<Rightarrow> (case encode b of None \<Rightarrow> None | Some y \<Rightarrow> Some (x @ y)))"
  by (induction a) (simp_all split: option.splits)

lemma encode_ascii_text [simp]:
  "encode (py ''_'') \<noteq> None" "encode (str_bool b) \<noteq> None"
  by (simp_all add: py_def str_bool_def utf8_char_def)

lemma q_hash_of_qa_hash:
  assumes "qa_hash U question language use_agent = Some k"
  shows "\<exists>k'. q_hash U question language is_followup = Some k'"
proof -
  have "encode (clean_q U question) \<noteq> None \<and> encode language \<noteq> None"
    using assms by (auto simp: qa_hash_def encode_append split: option.splits)
  then show ?thesis
    using encode_ascii_text(1) encode_ascii_text(2) [of is_followup]
    by (auto simp: q_hash_def question_text_def encode_append split: option.splits)
qed

lemma ask_transcript_followup:
  assumes "q_hash U (r_query req) (r_language req) True = Some k'"
  shows "ask_transcript U e w vid req info t sid True =
     (case ask_question U e w (r_query req) t vid (r_language req) (r_use_agent req)
             (Some (history_of w sid)) (Some (vi_title info)) of
        Inl err \<Rightarrow> (Failure err, Some sid, w)
      | Inr (answer, w2) \<Rightarrow>
          finish w2 sid (r_query req)
            (if r_language req = py ''ar'' \<and> r_use_agent req
             then strip_final_answer U answer else answer) False)"
  using assms
  by (auto simp: ask_transcript_def truthy_def Let_def split: option.splits sum.splits prod.splits)

lemma ask_question_plain:
  assumes plain: "\<not> is_followup_question U question \<or> h = []"
    and guards: "title \<noteq> []" "is_video_related_question U question (Some title)"
      "10 \<le> length (strip U transcript)" "\<not> is_summary_request U question"
    and key: "qa_hash U question language use_agent = Some k"
  shows "ask_question U e w question transcript vid language use_agent (Some h) (Some title) =
     (if truthy (fst (get_cached_answer w k vid))
      then Inr (the (fst (get_cached_answer w k vid)), snd (get_cached_answer w k vid))
      else Inr (chat_answer U e (snd (get_cached_answer w k vid)) question transcript vid
                  language use_agent (Some h) k True))"
proof -
  have t: "transcript \<noteq> []" using guards(3) by (auto simp: strip_def lstrip_def rstrip_def)
  show ?thesis
    using plain guards key t by (auto simp: ask_question_def truthy_def Let_def)
qed

lemma chat_answer_saved:
  assumes "\<And>p. e_chat e p \<noteq> None"
  shows "\<exists>d. CACHE_DIR (snd (chat_answer U e w q t vid l ag h k True)) (cache_file vid) = Some d \<and>
             d k = Some (fst (chat_answer U e w q t vid l ag h k True))"
proof -
  define p where "p = generate_prompt ag q
    (if (if vid \<noteq> [] then retrieve_relevant_context e w q vid else []) = []
     then e_windows e t
     else (if vid \<noteq> [] then retrieve_relevant_context e w q vid else [])) l h"
  obtain content where c: "e_chat e p = Some content"
    using assms [of p] by auto
  show ?thesis
    using c by (simp add: chat_answer_def save_to_cache_def Let_def p_def)
qed


lemma get_cached_answer_session [simp]:
  "fst (get_cached_answer (snd (get_conversation_history e w s vid)) k vid) =
     fst (get_cached_answer w k vid)"
  by (simp add: get_cached_answer_def get_conversation_history_def Let_def
      split: option.splits)

lemma ready_reached_at:
  "r_query req \<noteq> [] \<Longrightarrow> VIDEO_INFO_DIR w = VIDEO_INFO_DIR ready_world \<Longrightarrow>
   TRANSCRIPT_DIR w = TRANSCRIPT_DIR ready_world \<Longrightarrow>
   reached w (py ''v'') req (the (VIDEO_INFO_DIR ready_world (py ''v.json'')))
     (the (TRANSCRIPT_DIR ready_world (py ''v.txt'')))"
  by (simp add: reached_def ready_world_def empty_world_def video_info_file_def
      transcript_file_def py_def)

lemma ready_guards:
  "vi_title (the (VIDEO_INFO_DIR ready_world (py ''v.json''))) \<noteq> []"
  "10 \<le> length (strip ascii_db (the (TRANSCRIPT_DIR ready_world (py ''v.txt''))))"
  by (simp_all add: ready_world_def empty_world_def text_eval)

text \<open>
  C4, for every request that carries the flag of a follow-up and that \<open>ask\<close> answers
  from the transcript: \<open>ask\<close> takes it for a follow-up. On the whole transcript, when
  the wording of the question is not that of a follow-up or the session has no turns
  yet, and the question passes the tests of \<open>ask_question\<close> (it is about the video,
  asks for no summary, and the transcript has 10 characters or more), the answer cache
  of the video is read and written: an entry under the fingerprint of \<open>ask_question\<close> is
  returned with no call of the chat completion, and when there is none the answer of
  the chat completion is stored under that fingerprint. The test of \<open>ask_question\<close>
  (lines 517 and 615) does not see the flag: it goes by the wording and the history.
  On a time window, the request is answered from the cache of the time windows, which
  no flag guards.
\<close>

theorem C4_flagged_followup_uses_cache:
  assumes reached: "reached w video_id req video_info transcript"
    and flagged: "r_is_followup req = Some True"
    and session: "get_conversation_history e w (r_session_id req) video_id = (session_id, w1)"
  shows "ask_followup U e w video_id req \<and>
    (r_start_time req = None \<and> r_end_time req = None \<and>
     (\<not> is_followup_question U (r_query req) \<or> history_of w1 session_id = []) \<and>
     vi_title video_info \<noteq> [] \<and>
     is_video_related_question U (r_query req) (Some (vi_title video_info)) \<and>
     10 \<le> length (strip U transcript) \<and> \<not> is_summary_request U (r_query req) \<and>
     qa_hash U (r_query req) (r_language req) (r_use_agent req) = Some k \<longrightarrow>
       (fst (get_cached_answer w k video_id) = Some a \<and> a \<noteq> [] \<longrightarrow>
          fst (ask U e w video_id req) =
            Reply (if r_language req = py ''ar'' \<and> r_use_agent req
                   then strip_final_answer U a else a) (Some False) \<and>
          chat_log (snd (snd (ask U e w video_id req))) = chat_log w) \<and>
       (\<not> truthy (fst (get_cached_answer w k video_id)) \<and> (\<forall>p. e_chat e p \<noteq> None) \<longrightarrow>
          (\<exists>d b. CACHE_DIR (snd (snd (ask U e w video_id req))) (cache_file video_id) = Some d \<and>
                 d k = Some b \<and>
                 fst (ask U e w video_id req) =
                   Reply (if r_language req = py ''ar'' \<and> r_use_agent req
                          then strip_final_answer U b else b) (Some False)))) \<and>
    ((r_start_time req \<noteq> None \<or> r_end_time req \<noteq> None) \<and>
     time_segment_hash (r_query req) (r_language req) (r_start_time req) (r_end_time req)
       = Some k' \<and>
     CACHE_DIR w (segments_cache_file video_id) = Some d' \<and> d' k' = Some a' \<and> a' \<noteq> [] \<longrightarrow>
       fst (ask U e w video_id req) = Reply a' (Some True))"
proof -
  have w1: "w1 = snd (get_conversation_history e w (r_session_id req) video_id)"
    and sid: "session_id = fst (get_conversation_history e w (r_session_id req) video_id)"
    using session by simp_all
  have fu: "ask_followup U e w video_id req"
    using flagged session by (simp add: ask_followup_def classify_followup_def)
  have whole: "ask U e w video_id req =
      ask_transcript U e w1 video_id req video_info transcript session_id True"
    if "r_start_time req = None" "r_end_time req = None"
    using that fu by (simp add: ask_when_reached [OF reached] session)
  have part1: "fst (ask U e w video_id req) =
            Reply (if r_language req = py ''ar'' \<and> r_use_agent req
                   then strip_final_answer U a else a) (Some False) \<and>
          chat_log (snd (snd (ask U e w video_id req))) = chat_log w"
    if nw: "r_start_time req = None" "r_end_time req = None"
      and plain: "\<not> is_followup_question U (r_query req) \<or> history_of w1 session_id = []"
      and guards: "vi_title video_info \<noteq> []"
        "is_video_related_question U (r_query req) (Some (vi_title video_info))"
        "10 \<le> length (strip U transcript)" "\<not> is_summary_request U (r_query req)"
      and key: "qa_hash U (r_query req) (r_language req) (r_use_agent req) = Some k"
      and hit: "fst (get_cached_answer w k video_id) = Some a" "a \<noteq> []"
  proof -
    obtain kk where kk: "q_hash U (r_query req) (r_language req) True = Some kk"
      using q_hash_of_qa_hash [OF key] by blast
    have h: "fst (get_cached_answer w1 k video_id) = Some a"
      using hit by (simp add: w1)
    have "ask_question U e w1 (r_query req) transcript video_id (r_language req)
        (r_use_agent req) (Some (history_of w1 session_id)) (Some (vi_title video_info)) =
        Inr (a, snd (get_cached_answer w1 k video_id))"
      using hit(2) h by (simp add: ask_question_plain [OF plain guards key] truthy_def)
    then have "ask U e w video_id req =
        finish (snd (get_cached_answer w1 k video_id)) session_id (r_query req)
          (if r_language req = py ''ar'' \<and> r_use_agent req
           then strip_final_answer U a else a) False"
      by (simp add: whole [OF nw] ask_transcript_followup [OF kk])
    then show ?thesis
      by (simp add: finish_def w1)
  qed
  have part2: "\<exists>d b. CACHE_DIR (snd (snd (ask U e w video_id req))) (cache_file video_id) = Some d \<and>
                 d k = Some b \<and>
                 fst (ask U e w video_id req) =
                   Reply (if r_language req = py ''ar'' \<and> r_use_agent req
                          then strip_final_answer U b else b) (Some False)"
    if nw: "r_start_time req = None" "r_end_time req = None"
      and plain: "\<not> is_followup_question U (r_query req) \<or> history_of w1 session_id = []"
      and guards: "vi_title video_info \<noteq> []"
        "is_video_related_question U (r_query req) (Some (vi_title video_info))"
        "10 \<le> length (strip U transcript)" "\<not> is_summary_request U (r_query req)"
      and key: "qa_hash U (r_query req) (r_language req) (r_use_agent req) = Some k"
      and miss: "\<not> truthy (fst (get_cached_answer w k video_id))"
      and chat: "\<forall>p. e_chat e p \<noteq> None"
  proof -
    obtain kk where kk: "q_hash U (r_query req) (r_language req) True = Some kk"
      using q_hash_of_qa_hash [OF key] by blast
    let ?c = "chat_answer U e (snd (get_cached_answer w1 k video_id)) (r_query req) transcript
        video_id (r_language req) (r_use_agent req) (Some (history_of w1 session_id)) k True"
    have m: "\<not> truthy (fst (get_cached_answer w1 k video_id))"
      using miss by (simp add: w1)
    have "ask_question U e w1 (r_query req) transcript video_id (r_language req)
        (r_use_agent req) (Some (history_of w1 session_id)) (Some (vi_title video_info)) =
        Inr ?c"
      using m by (simp add: ask_question_plain [OF plain guards key])
    then have res: "ask U e w video_id req =
        finish (snd ?c) session_id (r_query req)
          (if r_language req = py ''ar'' \<and> r_use_agent req
           then strip_final_answer U (fst ?c) else fst ?c) False"
      by (simp add: whole [OF nw] ask_transcript_followup [OF kk] split: prod.splits)
    obtain d where d: "CACHE_DIR (snd ?c) (cache_file video_id) = Some d" "d k = Some (fst ?c)"
      using chat_answer_saved [of e U "snd (get_cached_answer w1 k video_id)" "r_query req"
          transcript video_id "r_language req" "r_use_agent req"
          "Some (history_of w1 session_id)" k] chat
      by blast
    show ?thesis
      using d by (simp add: res finish_def)
  qed
  have part3: "fst (ask U e w video_id req) = Reply a' (Some True)"
    if win: "r_start_time req \<noteq> None \<or> r_end_time req \<noteq> None"
      and hit: "time_segment_hash (r_query req) (r_language req) (r_start_time req)
          (r_end_time req) = Some k'"
        "CACHE_DIR w (segments_cache_file video_id) = Some d'" "d' k' = Some a'" "a' \<noteq> []"
  proof -
    have "ask_time_window U e w1 video_id req video_info transcript session_id True =
        finish w1 session_id (r_query req) a' True"
      by (rule ask_time_window_hit [where k = k' and d = d']) (simp_all add: hit w1)
    then show ?thesis
      using win fu by (simp add: ask_when_reached [OF reached] session finish_def)
  qed
  show ?thesis
    using fu part1 part2 part3 by blast
qed

theorem C4_flagged_followup_uses_cache_witness:
  "ask_followup ascii_db demo_env cached_world (py ''v'') followup_request \<and>
   fst (ask ascii_db demo_env cached_world (py ''v'') followup_request) =
     Reply (py ''Old answer.'') (Some False) \<and>
   chat_log (snd (snd (ask ascii_db demo_env cached_world (py ''v'') followup_request))) = [] \<and>
   CACHE_DIR ready_world (cache_file (py ''v'')) = None \<and>
   (\<exists>d b. CACHE_DIR (snd (snd (ask ascii_db demo_env ready_world (py ''v'') followup_request)))
            (cache_file (py ''v'')) = Some d \<and> d demo_qa_key = Some b \<and>
          fst (ask ascii_db demo_env ready_world (py ''v'') followup_request) =
            Reply b (Some False)) \<and>
   fst (ask ascii_db demo_env stale_world (py ''v'')
          (window_request\<lparr>r_is_followup := Some True\<rparr>)) =
     Reply (py ''[10:00 - 20:00] Old answer.'') (Some True)"
proof -
  let ?info = "the (VIDEO_INFO_DIR ready_world (py ''v.json''))"
  let ?t = "the (TRANSCRIPT_DIR ready_world (py ''v.txt''))"
  let ?wreq = "window_request\<lparr>r_is_followup := Some True\<rparr>"
  have q: "r_query followup_request = demo_question" "r_query ?wreq = demo_question"
      "r_language followup_request = py ''en''" "\<not> r_use_agent followup_request"
      "r_is_followup followup_request = Some True" "r_is_followup ?wreq = Some True"
      "r_start_time followup_request = None" "r_end_time followup_request = None"
      "r_start_time ?wreq = Some 600" "r_end_time ?wreq = Some 1200"
      "r_language ?wreq = py ''en''"
    by (simp_all add: followup_request_def window_request_def demo_request_def)
  have re: "reached cached_world (py ''v'') followup_request ?info ?t"
      "reached ready_world (py ''v'') followup_request ?info ?t"
      "reached stale_world (py ''v'') ?wreq ?info ?t"
    by (rule ready_reached_at; simp add: q demo_question_facts cached_world_def stale_world_def)+
  have g: "get_conversation_history demo_env w (r_session_id followup_request) (py ''v'') =
      (fst (get_conversation_history demo_env w (r_session_id followup_request) (py ''v'')),
       snd (get_conversation_history demo_env w (r_session_id followup_request) (py ''v'')))"
      "get_conversation_history demo_env w (r_session_id ?wreq) (py ''v'') =
      (fst (get_conversation_history demo_env w (r_session_id ?wreq) (py ''v'')),
       snd (get_conversation_history demo_env w (r_session_id ?wreq) (py ''v'')))"
    for w by simp_all
  have guards: "\<not> is_followup_question ascii_db (r_query followup_request)"
      "is_video_related_question ascii_db (r_query followup_request) (Some (vi_title ?info))"
      "\<not> is_summary_request ascii_db (r_query followup_request)"
      "qa_hash ascii_db (r_query followup_request) (r_language followup_request)
         (r_use_agent followup_request) = Some demo_qa_key"
    using q(4) by (simp_all add: q demo_question_facts demo_keys)
  have caches: "fst (get_cached_answer cached_world demo_qa_key (py ''v'')) =
        Some (py ''Old answer.'')" "py ''Old answer.'' \<noteq> []"
      "\<not> truthy (fst (get_cached_answer ready_world demo_qa_key (py ''v'')))"
      "CACHE_DIR ready_world (cache_file (py ''v'')) = None"
      "chat_log cached_world = []"
    by (simp_all add: get_cached_answer_def cached_world_def ready_world_def empty_world_def
        cache_file_def truthy_def Let_def py_def)
  have chat: "\<forall>p. e_chat demo_env p \<noteq> None"
    by (simp add: demo_env_def)
  have win: "time_segment_hash (r_query ?wreq) (r_language ?wreq) (r_start_time ?wreq)
        (r_end_time ?wreq) = Some demo_window_key"
      "CACHE_DIR stale_world (segments_cache_file (py ''v'')) =
        Some [demo_window_key \<mapsto> py ''[10:00 - 20:00] Old answer.'']"
      "[demo_window_key \<mapsto> py ''[10:00 - 20:00] Old answer.''] demo_window_key =
        Some (py ''[10:00 - 20:00] Old answer.'')"
      "py ''[10:00 - 20:00] Old answer.'' \<noteq> []"
    by (simp_all add: q demo_keys stale_world_def segments_cache_file_def)
      (simp_all add: py_def)
  have en: "py ''en'' \<noteq> py ''ar''" by (simp add: py_def)
  show ?thesis
    using C4_flagged_followup_uses_cache [OF re(1) q(5) g(1), where U = ascii_db
          and k = demo_qa_key and a = "py ''Old answer.''"]
      C4_flagged_followup_uses_cache [OF re(2) q(5) g(1), where U = ascii_db
          and k = demo_qa_key]
      C4_flagged_followup_uses_cache [OF re(3) q(6) g(2), where U = ascii_db
          and k' = demo_window_key
          and d' = "[demo_window_key \<mapsto> py ''[10:00 - 20:00] Old answer.'']"
          and a' = "py ''[10:00 - 20:00] Old answer.''"]
      guards caches chat win ready_guards en
    by (simp add: q)
qed

section \<open>Processing a video again\<close>

lemma progress_update_dirs [simp]:
  "CACHE_DIR (progress_update e w a b c d f g h) = CACHE_DIR w"
  "memory_cache (progress_update e w a b c d f g h) = memory_cache w"
  "TRANSCRIPT_DIR (progress_update e w a b c d f g h) = TRANSCRIPT_DIR w"
  by (simp_all add: progress_update_def)

lemma clean_video_data_keeps [simp]:
  "CACHE_DIR (clean_video_data w vid) (segments_cache_file vid) =
     CACHE_DIR w (segments_cache_file vid)"
  "memory_cache (clean_video_data w vid) = memory_cache w"
  by (simp_all add: clean_video_data_def)

lemma embed_and_store_dirs [simp]:
  "CACHE_DIR (embed_and_store w chunks name) = CACHE_DIR w"
  "memory_cache (embed_and_store w chunks name) = memory_cache w"
  "TRANSCRIPT_DIR (embed_and_store w chunks name) = TRANSCRIPT_DIR w"
  by (simp_all add: embed_and_store_def)

lemma process_chunk_caches:
  "CACHE_DIR (fst (process_chunk U e vid lang cd tc ad acc idx)) = CACHE_DIR (fst acc) \<and>
   memory_cache (fst (process_chunk U e vid lang cd tc ad acc idx)) = memory_cache (fst acc)"
  by (cases acc) (simp add: process_chunk_def Let_def split: sum.splits option.splits)

lemma foldl_process_chunk_caches:
  "CACHE_DIR (fst (foldl (process_chunk U e vid lang cd tc ad) acc idxs)) = CACHE_DIR (fst acc) \<and>
   memory_cache (fst (foldl (process_chunk U e vid lang cd tc ad) acc idxs)) =
     memory_cache (fst acc)"
  by (induction idxs arbitrary: acc) (simp_all add: process_chunk_caches)

lemma long_video_start_caches:
  "long_video_start e w vid = Inr (w6, x) \<Longrightarrow>
     CACHE_DIR w6 = CACHE_DIR w \<and> memory_cache w6 = memory_cache w"
  "long_video_start e w vid = Inl (m, w') \<Longrightarrow>
     CACHE_DIR w' = CACHE_DIR w \<and> memory_cache w' = memory_cache w"
  by (auto simp: long_video_start_def Let_def split: option.splits if_splits)

lemma long_video_finish_caches [simp]:
  "CACHE_DIR (long_video_finish e w ts vid lang n ad) = CACHE_DIR w"
  "memory_cache (long_video_finish e w ts vid lang n ad) = memory_cache w"
  by (simp_all add: long_video_finish_def Let_def)

lemma process_long_video_caches:
  "CACHE_DIR (process_long_video U e w vid lang) = CACHE_DIR w \<and>
   memory_cache (process_long_video U e w vid lang) = memory_cache w"
proof (cases "long_video_start e w vid")
  case (Inl exn)
  obtain m w' where exn: "exn = (m, w')" by (cases exn)
  show ?thesis
    using long_video_start_caches(2) [of e w vid m w'] Inl exn
    by (simp add: process_long_video_def long_video_body_def long_video_loop_def split: option.splits)
next
  case (Inr r)
  obtain w6 cd tc ad where r: "r = (w6, cd, tc, ad)" by (cases r)
  obtain w7 ts where fl: "foldl (process_chunk U e vid lang cd tc ad) (w6, []) [0..<nat tc] = (w7, ts)"
    by (cases "foldl (process_chunk U e vid lang cd tc ad) (w6, []) [0..<nat tc]") auto
  have "CACHE_DIR w7 = CACHE_DIR w6 \<and> memory_cache w7 = memory_cache w6"
    using foldl_process_chunk_caches [of U e vid lang cd tc ad "(w6, [])" "[0..<nat tc]"] fl
    by simp
  then show ?thesis
    using long_video_start_caches(1) [of e w vid w6 "(cd, tc, ad)"] Inr r fl
    by (simp add: process_long_video_def long_video_body_def long_video_loop_def)
qed

lemma process_caches:
  "CACHE_DIR (snd (process U e w vid lang force)) (segments_cache_file vid) =
     CACHE_DIR w (segments_cache_file vid) \<and>
   memory_cache (snd (process U e w vid lang force)) = memory_cache w"
  by (simp add: process_def Let_def split: sum.splits)

lemma process_video_caches:
  "CACHE_DIR (snd (process_video U e w vid lang force)) (segments_cache_file vid) =
     CACHE_DIR w (segments_cache_file vid) \<and>
   memory_cache (snd (process_video U e w vid lang force)) = memory_cache w"
proof (cases "process U e w vid lang force")
  case (Pair r w1)
  then show ?thesis
    using process_caches [of U e w vid lang force] process_long_video_caches [of U e w1 vid lang]
    by (cases r) (simp_all add: process_video_def)
qed


lemma process_long_video_finished:
  assumes "e_download e" "VIDEO_INFO_DIR w (video_info_file vid) \<noteq> None"
  shows "\<exists>w7 ts n ad. process_long_video U e w vid lang = long_video_finish e w7 ts vid lang n ad"
proof -
  obtain w6 cd n ad where st: "long_video_start e w vid = Inr (w6, cd, n, ad)"
    using long_video_start_ok [OF assms] by blast
  obtain w7 ts where fl: "foldl (process_chunk U e vid lang cd n ad) (w6, []) [0..<nat n] = (w7, ts)"
    by (cases "foldl (process_chunk U e vid lang cd n ad) (w6, []) [0..<nat n]") auto
  have "process_long_video U e w vid lang = long_video_finish e w7 ts vid lang n ad"
    by (simp add: process_long_video_def long_video_body_def long_video_loop_def st fl)
  then show ?thesis by blast
qed

lemma process_video_answerable:
  assumes "e_download e" "is_long_video (e_duration e) force" "r_query req \<noteq> []"
  shows "\<exists>info t. reached (snd (process_video U e w vid lang force)) vid req info t"
proof -
  obtain w1 where p: "process U e w vid lang force = (Processing_started, w1)"
    and info: "VIDEO_INFO_DIR w1 (video_info_file vid) \<noteq> None"
    using process_chunked [OF assms(2), of U w vid lang]
    by (cases "process U e w vid lang force") auto
  have pv: "snd (process_video U e w vid lang force) = process_long_video U e w1 vid lang"
    by (simp add: process_video_def p)
  obtain w7 ts n ad where fin: "process_long_video U e w1 vid lang =
      long_video_finish e w7 ts vid lang n ad"
    using process_long_video_finished [OF assms(1) info] by blast
  show ?thesis
    using assms(3)
    by (simp add: pv fin reached_def long_video_finish_info long_video_finish_transcript)
qed

text \<open>
  C2, for every state, video and surroundings: processing the video again, to the end
  of the background task, leaves the cache of the time windows of the video and the
  memory cache of \<open>qa_system.py\<close> as they were. \<open>clean_video_data\<close> removes neither
  the file \<open>{video_id}_segments.json\<close> nor the entry of the memory cache, and nothing
  else in \<open>process\<close> or \<open>process_long_video\<close> touches them. So an answer of the earlier
  run in the memory cache is still returned by \<open>get_cached_answer\<close>, and, when the new
  run is a chunked one whose download succeeds, a question on a time window is still
  answered with the answer of the earlier run, flagged as a cache hit. The state
  \<open>stale_world\<close> holds two such answers for the video \<open>v\<close>.
\<close>

theorem C2_stale_answers:
  "CACHE_DIR (snd (process_video U e w video_id language force_chunked))
     (segments_cache_file video_id) = CACHE_DIR w (segments_cache_file video_id) \<and>
   memory_cache (snd (process_video U e w video_id language force_chunked)) = memory_cache w \<and>
   (memory_cache w video_id = Some m \<and> m k = Some a \<longrightarrow>
      fst (get_cached_answer (snd (process_video U e w video_id language force_chunked))
             k video_id) = Some a) \<and>
   (e_download e \<and> is_long_video (e_duration e) force_chunked \<and> r_query req \<noteq> [] \<and>
    (r_start_time req \<noteq> None \<or> r_end_time req \<noteq> None) \<and>
    time_segment_hash (r_query req) (r_language req) (r_start_time req) (r_end_time req)
      = Some k' \<and>
    CACHE_DIR w (segments_cache_file video_id) = Some d \<and> d k' = Some a' \<and> a' \<noteq> [] \<longrightarrow>
      fst (ask U e (snd (process_video U e w video_id language force_chunked)) video_id req) =
        Reply a' (Some True))"
proof -
  let ?W = "snd (process_video U e w video_id language force_chunked)"
  have caches: "CACHE_DIR ?W (segments_cache_file video_id) =
        CACHE_DIR w (segments_cache_file video_id)"
      "memory_cache ?W = memory_cache w"
    using process_video_caches [of U e w video_id language force_chunked] by simp_all
  have mem: "fst (get_cached_answer ?W k video_id) = Some a"
    if "memory_cache w video_id = Some m" "m k = Some a"
    using that by (simp add: get_cached_answer_def caches)
  have win: "fst (ask U e ?W video_id req) = Reply a' (Some True)"
    if e: "e_download e" "is_long_video (e_duration e) force_chunked"
      and q: "r_query req \<noteq> []"
      and window: "r_start_time req \<noteq> None \<or> r_end_time req \<noteq> None"
      and hit: "time_segment_hash (r_query req) (r_language req) (r_start_time req)
          (r_end_time req) = Some k'"
        "CACHE_DIR w (segments_cache_file video_id) = Some d" "d k' = Some a'" "a' \<noteq> []"
  proof -
    obtain info t where re: "reached ?W video_id req info t"
      using process_video_answerable [OF e q] by blast
    let ?g = "get_conversation_history e ?W (r_session_id req) video_id"
    have "ask_time_window U e (snd ?g) video_id req info t (fst ?g)
            (ask_followup U e ?W video_id req) =
          finish (snd ?g) (fst ?g) (r_query req) a' True"
      by (rule ask_time_window_hit [where k = k' and d = d]) (simp_all add: hit caches)
    then show ?thesis
      using window by (simp add: ask_when_reached [OF re] finish_def)
  qed
  show ?thesis
    using caches mem win by blast
qed

theorem C2_stale_answers_witness:
  "fst (ask ascii_db demo_env
          (snd (process_video ascii_db demo_env stale_world (py ''v'') None False))
          (py ''v'') window_request) =
     Reply (py ''[10:00 - 20:00] Old answer.'') (Some True) \<and>
   fst (get_cached_answer
          (snd (process_video ascii_db demo_env stale_world (py ''v'') None False))
          demo_qa_key (py ''v'')) = Some (py ''Old answer.'')"
proof -
  have e: "e_download demo_env" "is_long_video (e_duration demo_env) False"
    by (simp_all add: demo_env_def is_long_video_def)
  have q: "r_query window_request \<noteq> []"
      "r_start_time window_request = Some 600"
      "time_segment_hash (r_query window_request) (r_language window_request)
         (r_start_time window_request) (r_end_time window_request) = Some demo_window_key"
    by (simp_all add: window_request_def demo_request_def demo_question_facts demo_keys)
  have c: "CACHE_DIR stale_world (segments_cache_file (py ''v'')) =
        Some [demo_window_key \<mapsto> py ''[10:00 - 20:00] Old answer.'']"
      "[demo_window_key \<mapsto> py ''[10:00 - 20:00] Old answer.''] demo_window_key =
        Some (py ''[10:00 - 20:00] Old answer.'')"
      "py ''[10:00 - 20:00] Old answer.'' \<noteq> []"
      "memory_cache stale_world (py ''v'') = Some [demo_qa_key \<mapsto> py ''Old answer.'']"
      "[demo_qa_key \<mapsto> py ''Old answer.''] demo_qa_key = Some (py ''Old answer.'')"
    by (simp_all add: stale_world_def segments_cache_file_def py_def)
  show ?thesis
    using C2_stale_answers [where U = ascii_db and e = demo_env and w = stale_world
        and video_id = "py ''v''" and language = None and force_chunked = False
        and m = "[demo_qa_key \<mapsto> py ''Old answer.'']" and k = demo_qa_key
        and a = "py ''Old answer.''" and req = window_request and k' = demo_window_key
        and d = "[demo_window_key \<mapsto> py ''[10:00 - 20:00] Old answer.'']"
        and a' = "py ''[10:00 - 20:00] Old answer.''"]
      e q c
    by simp
qed

section \<open>The fingerprints\<close>

text \<open>
  MD5 evaluated: the test vector \<open>abc\<close> of RFC 1321, and the two texts hashed for the
  window from 600 to 660 seconds.
\<close>

lemma replicate_unfold: "replicate n x = (if n = 0 then [] else x # replicate (n - 1) x)"
  by (cases n) simp_all

lemmas md5_eval = md5_hexdigest_def md5_pad_def md5_block_def le_bytes4_def hex_byte_def
  hex_digit_def md5_K_def md5_s_def add32_def not32_def rotl32_def md5_round_def md5_index_def
  md5_blocks.simps upt_rec replicate_unfold

lemma md5_abc: "md5_hexdigest (py ''abc'') = py ''900150983cd24fb0d6963f7d28e17f72''"
  by (simp add: py_def md5_eval)

lemma md5_window_1:
  "md5_hexdigest (py ''What is X?_en_600_660'') = py ''1f05028296078e796cea5963f83e2bb3''"
  by (simp add: py_def md5_eval)

lemma md5_window_2:
  "md5_hexdigest (py ''what is x_en_600_660'') = py ''29a8af84a4ef8afaaa8b9b625d59ae3a''"
  by (simp add: py_def md5_eval)

lemma window_text_inj:
  "(window_text q1 language s t = window_text q2 language s t) = (q1 = q2)"
  by (simp add: window_text_def)

lemma ready_reached:
  "r_query req \<noteq> [] \<Longrightarrow> VIDEO_INFO_DIR w = VIDEO_INFO_DIR ready_world \<Longrightarrow>
   TRANSCRIPT_DIR w = TRANSCRIPT_DIR ready_world \<Longrightarrow>
   \<exists>video_info transcript. reached w (py ''v'') req video_info transcript"
  by (simp add: reached_def ready_world_def empty_world_def video_info_file_def
      transcript_file_def py_def)

text \<open>
  C8 as the code has it. Without a time window the fingerprint is the hash of the
  normalized question, the language and the follow-up flag, so two questions with the
  same normalized text have the same fingerprint. With a time window the text hashed
  is the question as typed, the language and the two bounds: two different questions
  never give the same text. The mode is in neither: a request that \<open>ask\<close> takes for a
  direct question is answered from the entry under the first fingerprint, and a request
  on a time window from the entry under the second one, whatever its mode and, on a
  window, whatever its follow-up flag.
\<close>

theorem C8_fingerprints:
  "(clean_q U question = clean_q U question' \<longrightarrow>
      q_hash U question language is_followup = q_hash U question' language is_followup) \<and>
   ((window_text question language start_time_sec end_time_sec =
     window_text question' language start_time_sec end_time_sec) = (question = question')) \<and>
   ((\<exists>video_info transcript. reached w video_id req video_info transcript) \<and>
    r_start_time req = None \<and> r_end_time req = None \<and>
    \<not> ask_followup U e w video_id req \<and>
    q_hash U (r_query req) (r_language req) False = Some k \<and>
    CACHE_DIR w (cache_file video_id) = Some d \<and> d k = Some a \<and> a \<noteq> [] \<longrightarrow>
      fst (ask U e w video_id req) = Reply a (Some True)) \<and>
   ((\<exists>video_info transcript. reached w' video_id req' video_info transcript) \<and>
    (r_start_time req' \<noteq> None \<or> r_end_time req' \<noteq> None) \<and>
    time_segment_hash (r_query req') (r_language req') (r_start_time req') (r_end_time req')
      = Some k' \<and>
    CACHE_DIR w' (segments_cache_file video_id) = Some d' \<and> d' k' = Some a' \<and> a' \<noteq> [] \<longrightarrow>
      fst (ask U e w' video_id req') = Reply a' (Some True))"
proof -
  have one: "clean_q U question = clean_q U question' \<longrightarrow>
      q_hash U question language is_followup = q_hash U question' language is_followup"
    by (simp add: q_hash_def question_text_def)
  have three: "fst (ask U e w video_id req) = Reply a (Some True)"
    if re: "reached w video_id req video_info transcript"
      and nw: "r_start_time req = None" "r_end_time req = None"
      and nf: "\<not> ask_followup U e w video_id req"
      and hit: "q_hash U (r_query req) (r_language req) False = Some k"
        "CACHE_DIR w (cache_file video_id) = Some d" "d k = Some a" "a \<noteq> []"
    for video_info transcript
  proof -
    let ?g = "get_conversation_history e w (r_session_id req) video_id"
    have "ask_transcript U e (snd ?g) video_id req video_info transcript (fst ?g) False =
        finish (snd ?g) (fst ?g) (r_query req) a True"
      by (rule ask_transcript_hit [where k = k and d = d]) (simp_all add: hit)
    then show ?thesis
      using nw nf by (simp add: ask_when_reached [OF re] finish_def)
  qed
  have four: "fst (ask U e w' video_id req') = Reply a' (Some True)"
    if re: "reached w' video_id req' video_info transcript"
      and win: "r_start_time req' \<noteq> None \<or> r_end_time req' \<noteq> None"
      and hit: "time_segment_hash (r_query req') (r_language req') (r_start_time req')
          (r_end_time req') = Some k'"
        "CACHE_DIR w' (segments_cache_file video_id) = Some d'" "d' k' = Some a'" "a' \<noteq> []"
    for video_info transcript
  proof -
    let ?g = "get_conversation_history e w' (r_session_id req') video_id"
    have "ask_time_window U e (snd ?g) video_id req' video_info transcript (fst ?g)
            (ask_followup U e w' video_id req') =
        finish (snd ?g) (fst ?g) (r_query req') a' True"
      by (rule ask_time_window_hit [where k = k' and d = d']) (simp_all add: hit)
    then show ?thesis
      using win by (simp add: ask_when_reached [OF re] finish_def)
  qed
  show ?thesis
    using one three four by (simp add: window_text_inj) blast
qed

theorem C8_fingerprints_witness:
  "clean_q ascii_db (py ''What is X?'') = clean_q ascii_db (py ''what is x'') \<and>
   q_hash ascii_db (py ''What is X?'') (py ''en'') False =
     q_hash ascii_db (py ''what is x'') (py ''en'') False \<and>
   fst (ask ascii_db demo_env
          (ready_world\<lparr>CACHE_DIR := [py ''v.json'' \<mapsto> [demo_key \<mapsto> py ''Old answer.'']]\<rparr>)
          (py ''v'') (demo_request\<lparr>r_use_agent := True\<rparr>)) =
     Reply (py ''Old answer.'') (Some True) \<and>
   fst (ask ascii_db demo_env stale_world (py ''v'')
          (window_request\<lparr>r_use_agent := True, r_is_followup := Some True\<rparr>)) =
     Reply (py ''[10:00 - 20:00] Old answer.'') (Some True)"
proof -
  let ?w = "ready_world\<lparr>CACHE_DIR := [py ''v.json'' \<mapsto> [demo_key \<mapsto> py ''Old answer.'']]\<rparr>"
  let ?req = "demo_request\<lparr>r_use_agent := True\<rparr>"
  let ?req' = "window_request\<lparr>r_use_agent := True, r_is_followup := Some True\<rparr>"
  have n: "clean_q ascii_db (py ''What is X?'') = clean_q ascii_db (py ''what is x'')"
    by (simp add: clean_q_def text_eval)
  have q: "r_query ?req \<noteq> []" "r_query ?req' \<noteq> []"
    by (simp_all add: demo_request_def window_request_def demo_question_facts)
  have r: "\<exists>video_info transcript. reached ?w (py ''v'') ?req video_info transcript"
    by (rule ready_reached [OF q(1)]) simp_all
  have r': "\<exists>video_info transcript. reached stale_world (py ''v'') ?req' video_info transcript"
    by (rule ready_reached [OF q(2)]) (simp_all add: stale_world_def)
  have direct: "\<not> ask_followup ascii_db demo_env ?w (py ''v'') ?req"
    by (simp add: ask_followup_def classify_followup_def demo_request_def split: prod.splits)
  have h: "r_start_time ?req = None" "r_end_time ?req = None"
      "q_hash ascii_db (r_query ?req) (r_language ?req) False = Some demo_key"
      "CACHE_DIR ?w (cache_file (py ''v'')) = Some [demo_key \<mapsto> py ''Old answer.'']"
      "[demo_key \<mapsto> py ''Old answer.''] demo_key = Some (py ''Old answer.'')"
      "py ''Old answer.'' \<noteq> []"
    by (simp_all add: demo_request_def demo_keys cache_file_def) (simp_all add: py_def)
  have h': "r_start_time ?req' \<noteq> None \<or> r_end_time ?req' \<noteq> None"
      "time_segment_hash (r_query ?req') (r_language ?req') (r_start_time ?req')
         (r_end_time ?req') = Some demo_window_key"
      "CACHE_DIR stale_world (segments_cache_file (py ''v'')) =
         Some [demo_window_key \<mapsto> py ''[10:00 - 20:00] Old answer.'']"
      "[demo_window_key \<mapsto> py ''[10:00 - 20:00] Old answer.''] demo_window_key =
         Some (py ''[10:00 - 20:00] Old answer.'')"
      "py ''[10:00 - 20:00] Old answer.'' \<noteq> []"
    by (simp_all add: demo_request_def window_request_def demo_keys segments_cache_file_def
        stale_world_def) (simp_all add: py_def)
  show ?thesis
    using C8_fingerprints [where U = ascii_db and question = "py ''What is X?''"
        and question' = "py ''what is x''" and language = "py ''en''" and is_followup = False
        and w = ?w and video_id = "py ''v''" and req = ?req and e = demo_env and k = demo_key
        and d = "[demo_key \<mapsto> py ''Old answer.'']" and a = "py ''Old answer.''"
        and w' = stale_world and req' = ?req' and k' = demo_window_key
        and d' = "[demo_window_key \<mapsto> py ''[10:00 - 20:00] Old answer.'']"
        and a' = "py ''[10:00 - 20:00] Old answer.''"]
      n r r' direct h h'
    by simp
qed

text \<open>
  C8 as stated fails on a time window: \<open>What is X?\<close> and \<open>what is x\<close> have the same
  normalized text, and on the window from 600 to 660 seconds their fingerprints differ.
\<close>

theorem C8_window_fingerprint_raw:
  "clean_q ascii_db (py ''What is X?'') = clean_q ascii_db (py ''what is x'') \<and>
   time_segment_hash (py ''What is X?'') (py ''en'') (Some 600) (Some 660) \<noteq>
   time_segment_hash (py ''what is x'') (py ''en'') (Some 600) (Some 660)"
proof -
  have t1: "window_text (py ''What is X?'') (py ''en'') (Some 600) (Some 660) =
            py ''What is X?_en_600_660''"
    and t2: "window_text (py ''what is x'') (py ''en'') (Some 600) (Some 660) =
            py ''what is x_en_600_660''"
    by (simp_all add: window_text_def str_opt_def str_int_def str_nat.simps py_def)
  have e1: "encode (py ''What is X?_en_600_660'') = Some (py ''What is X?_en_600_660'')"
    and e2: "encode (py ''what is x_en_600_660'') = Some (py ''what is x_en_600_660'')"
    by (simp_all add: py_def utf8_char_def)
  have "py ''1f05028296078e796cea5963f83e2bb3'' \<noteq> py ''29a8af84a4ef8afaaa8b9b625d59ae3a''"
    by (simp add: py_def)
  then have "time_segment_hash (py ''What is X?'') (py ''en'') (Some 600) (Some 660) \<noteq>
      time_segment_hash (py ''what is x'') (py ''en'') (Some 600) (Some 660)"
    by (simp add: time_segment_hash_def t1 t2 e1 e2 md5_window_1 md5_window_2)
  moreover have "clean_q ascii_db (py ''What is X?'') = clean_q ascii_db (py ''what is x'')"
    by (simp add: clean_q_def text_eval)
  ultimately show ?thesis by simp
qed

end
